theory Spec2Isabelle
  imports Complex_Main "HOL-Library.Word" "HOL-Library.Code_Target_Nat"
begin

unbundle bit_operations_syntax

chapter \<open>framesconv: RGB to NV12 conversion on the GPU\<close>

text \<open>
  A shallow embedding of the host code of framesconv (command line, GBM buffers, the EGL
  context, the dispatch of the conversion) and of the arithmetic of its shaders.
  Native calls (libc, GBM, EGL, GL) are not part of the program: each one appears as an
  event of a trace, and its answer is read from a record of answers that is a parameter
  of the model. C++ exceptions are values: a function that can throw returns
  \<open>error + 'a\<close>, \<open>Inl\<close> carrying the exception.
\<close>

section \<open>Exceptions\<close>

text \<open>
  The three exception classes the program throws, each with the text given to its
  constructor (\<open>what\<close> below gives the text of \<open>what()\<close>). The other two are not
  exceptions. \<open>undefined_behaviour\<close> marks a point where the C++ standard stops defining
  the program (a \<open>std::string_view\<close> built from a null pointer); \<open>terminate_called\<close>
  marks a call of \<open>std::terminate\<close> (an exception that leaves a destructor). The model
  halts at both: nothing is unwound and nothing is caught.
\<close>

datatype error =
    invalid_argument string
  | runtime_error string
  | system_error string
  | undefined_behaviour string
  | terminate_called string

section \<open>The command line (main.cc)\<close>

text \<open>
  The sources hold three versions of main.cc. The earliest runs a pass-through shader:
  it checks both sizes with the mask \<open>0xf\<close>, allocates a destination buffer of \<open>width\<close> by
  \<open>height\<close> and dispatches \<open>width / 16\<close> by \<open>height / 16\<close> groups. The second holds the
  conversion shader itself, and the newest calls it through \<open>framesconv.h\<close> and adds the
  option \<open>-es\<close>; both check the width with \<open>0x7\<close> and the height with \<open>0x3\<close>, allocate a
  destination buffer of \<open>width / 4\<close> by \<open>height * 3 / 2\<close> and dispatch \<open>width / 8\<close> by
  \<open>height / 4\<close> groups. The model follows the newest; \<open>check_size\<close> and \<open>check_fname\<close> are
  the same in all three.
\<close>

subsection \<open>\<open>std::atoi\<close>\<close>

text \<open>
  \<open>std::atoi\<close> is the C library's: it skips white space, reads an optional sign and then
  decimal digits up to the first character that is not a digit, and returns 0 when there
  is no digit. A value that does not fit \<open>int\<close> is undefined in ISO C; it is modelled as
  glibc computes it, \<open>(int) strtol(s, NULL, 10)\<close>: \<open>strtol\<close> saturates at the bounds of a
  64-bit \<open>long\<close> and the conversion keeps the low 32 bits. No theorem below depends on that
  choice except through the value \<open>atoi\<close> returns.
\<close>

definition isspace :: "char \<Rightarrow> bool" where
  "isspace c = (c \<in> set [CHR '' '', CHR 0x09, CHR 0x0A, CHR 0x0B, CHR 0x0C, CHR 0x0D])"

definition isdigit :: "char \<Rightarrow> bool" where
  "isdigit c = (48 \<le> (of_char c :: nat) \<and> (of_char c :: nat) \<le> 57)"

definition digit_value :: "char \<Rightarrow> int" where
  "digit_value c = int (of_char c) - 48"

fun accumulate_digits :: "int \<Rightarrow> string \<Rightarrow> int" where
  "accumulate_digits acc [] = acc"
| "accumulate_digits acc (c # cs) =
     (if isdigit c then accumulate_digits (acc * 10 + digit_value c) cs else acc)"

text \<open>
  The integer a text denotes as \<open>strtol\<close> reads it, before any bound: white space, an
  optional sign, then the decimal digits up to the first character that is not one.
\<close>

definition written_value :: "string \<Rightarrow> int" where
  "written_value s =
     (case dropWhile isspace s of
        [] \<Rightarrow> 0
      | c # cs \<Rightarrow>
          if c = CHR ''-'' then - accumulate_digits 0 cs
          else if c = CHR ''+'' then accumulate_digits 0 cs
          else accumulate_digits 0 (c # cs))"

definition strtol10 :: "string \<Rightarrow> int" where
  "strtol10 s = max (- (2 ^ 63)) (min (2 ^ 63 - 1) (written_value s))"

definition atoi :: "string \<Rightarrow> int" where
  "atoi s = signed_take_bit 31 (strtol10 s)"

subsection \<open>\<open>ParseCommandline\<close>\<close>

text \<open>
  \<open>Options\<close> as in the newest main.cc (the one that selects between the two
  implementations). A \<open>const char*\<close> is a \<open>string option\<close>, \<open>None\<close> the null pointer.
  (\<open>output\<close> is a keyword of Isabelle, hence \<open>output'\<close>.)
\<close>

record Options =
  width :: nat
  height :: nat
  input :: "string option"
  output' :: "string option"
  render_node :: "string option"
  es20 :: bool

text \<open>
  \<open>check_size\<close>: \<open>value\<close> is an \<open>int\<close>, \<open>value & mask\<close> the bitwise conjunction, and the
  cast to \<open>std::size_t\<close> of a positive \<open>int\<close> keeps its value.
\<close>

definition check_size :: "string option \<Rightarrow> int \<Rightarrow> error + nat" where
  "check_size inp m =
     (case inp of
        None \<Rightarrow> Inl (invalid_argument ''Missing argument'')
      | Some s \<Rightarrow>
          (let val = atoi s in
           if val \<le> 0 then Inl (invalid_argument ''Size must be positive'')
           else if val AND m \<noteq> 0 then Inl (invalid_argument ''Size must be aligned'')
           else Inr (nat val)))"

text \<open>
  \<open>check_fname\<close> and \<open>check_implementation\<close> compare their argument with a
  \<open>std::string_view\<close>, which converts the argument to a \<open>std::string_view\<close> first: on a null
  pointer that is undefined.
\<close>

definition check_fname :: "string option \<Rightarrow> error + string option" where
  "check_fname inp =
     (case inp of
        None \<Rightarrow> Inl (undefined_behaviour ''string_view of a null pointer'')
      | Some s \<Rightarrow> Inr (if s = ''-'' then None else Some s))"

definition check_implementation :: "string option \<Rightarrow> error + bool" where
  "check_implementation inp =
     (case inp of
        None \<Rightarrow> Inl (undefined_behaviour ''string_view of a null pointer'')
      | Some s \<Rightarrow>
          if s = ''31'' then Inr False
          else if s = ''20'' then Inr True
          else Inl (invalid_argument ''Invalid implementation''))"

text \<open>
  \<open>*++it\<close> reads the element after the option; after the last element of \<open>argv\<close> that is
  the null pointer \<open>argv[argc]\<close>. The loop then goes on behind the element it has read.
\<close>

definition next_arg :: "string list \<Rightarrow> string option" where
  "next_arg rest = (case rest of [] \<Rightarrow> None | a # _ \<Rightarrow> Some a)"

definition usage :: string where
  "usage = ''Usage: framesconv [-i input] -w width -h height '' @
           ''[-o output] [-r render_node] [-es implementation]''"

function parse_loop :: "int \<Rightarrow> int \<Rightarrow> string list \<Rightarrow> Options \<Rightarrow> error + Options" where
  "parse_loop mw mh [] result = Inr result"
| "parse_loop mw mh (a # rest) result =
     (if a = ''-w'' then
        (case check_size (next_arg rest) mw of
           Inl e \<Rightarrow> Inl e
         | Inr v \<Rightarrow> parse_loop mw mh (drop 1 rest) (result\<lparr>width := v\<rparr>))
      else if a = ''-h'' then
        (case check_size (next_arg rest) mh of
           Inl e \<Rightarrow> Inl e
         | Inr v \<Rightarrow> parse_loop mw mh (drop 1 rest) (result\<lparr>height := v\<rparr>))
      else if a = ''-i'' then
        (case check_fname (next_arg rest) of
           Inl e \<Rightarrow> Inl e
         | Inr v \<Rightarrow> parse_loop mw mh (drop 1 rest) (result\<lparr>input := v\<rparr>))
      else if a = ''-o'' then
        (case check_fname (next_arg rest) of
           Inl e \<Rightarrow> Inl e
         | Inr v \<Rightarrow> parse_loop mw mh (drop 1 rest) (result\<lparr>output' := v\<rparr>))
      else if a = ''-r'' then
        parse_loop mw mh (drop 1 rest) (result\<lparr>render_node := next_arg rest\<rparr>)
      else if a = ''-es'' then
        (case check_implementation (next_arg rest) of
           Inl e \<Rightarrow> Inl e
         | Inr v \<Rightarrow> parse_loop mw mh (drop 1 rest) (result\<lparr>es20 := v\<rparr>))
      else parse_loop mw mh rest result)"
  by pat_completeness auto
termination
  by (relation "measure (\<lambda>(mw, mh, args, result). length args)") auto

text \<open>
  \<open>ParseCommandline\<close> of the newest main.cc: the masks are \<open>0x7\<close> for the width and \<open>0x3\<close>
  for the height, whichever implementation is selected.
\<close>

definition ParseCommandline :: "string list \<Rightarrow> error + Options" where
  "ParseCommandline argv =
     (case parse_loop 0x7 0x3 argv
             \<lparr>width = 0, height = 0, input = None, output' = None,
              render_node = Some ''/dev/dri/renderD128'', es20 = False\<rparr> of
        Inl e \<Rightarrow> Inl e
      | Inr result \<Rightarrow>
          if width result = 0 \<or> height result = 0 then Inl (runtime_error usage)
          else Inr result)"

section \<open>Native calls, traces and scopes\<close>

text \<open>
  Handles of the native layer. A pointer-like handle is a \<open>nat option\<close>, \<open>None\<close> the null
  handle (\<open>EGL_NO_DISPLAY\<close>, \<open>EGL_NO_CONTEXT\<close>, \<open>EGL_NO_SYNC\<close>, \<open>EGL_NO_IMAGE\<close>, a null
  \<open>gbm_bo*\<close>); a GL name is a \<open>nat\<close>, 0 the name that is none; a file descriptor is an
  \<open>int\<close>, \<open>-1\<close> the descriptor that is none.
\<close>

type_synonym handle = "nat option"

datatype prot = PROT_READ | PROT_WRITE

text \<open>
  One event for each native call the model follows, with the arguments that matter,
  grouped by library. \<open>eglGetPlatformDisplay d\<close> and \<open>eglCreateContext display c\<close> carry
  the handle the call returned.
  \<open>istream_read n k\<close>: \<open>read\<close> was asked for \<open>n\<close> bytes and stored \<open>k\<close> bytes in the mapping;
  \<open>ostream_write n k\<close>: \<open>write\<close> was asked for \<open>n\<close> bytes and the stream took \<open>k\<close>.
\<close>

datatype sys_call =
    sys_open "string option"
  | sys_close int
  | mmap nat prot int
  | munmap nat
  | ifstream_ctor string
  | ofstream_ctor string
  | istream_read int nat
  | ostream_write int nat
  | cerr_what string
  | cerr_millis nat

datatype gbm_call =
    gbm_create_device int
  | gbm_device_destroy handle
  | gbm_bo_create nat nat
  | gbm_bo_destroy handle
  | gbm_bo_get_fd handle

datatype egl_call =
    eglQueryString handle
  | eglGetPlatformDisplay handle
  | eglInitialize handle
  | eglTerminate handle
  | eglBindAPI
  | eglCreateContext handle handle
  | eglDestroyContext handle handle
  | eglMakeCurrent handle handle
  | eglCreateImage handle nat nat int nat
  | eglDestroyImage handle handle

datatype egl_sync_call =
    eglCreateSync handle
  | eglClientWaitSync handle handle
  | eglDestroySync handle handle

datatype gl_call =
    CreateGlTexture_import handle
  | glDeleteTextures nat
  | CreateFramesconv_build bool
  | Framesconv_delete bool
  | glUseProgram nat
  | glBindImageTexture nat nat
  | glDispatchCompute nat nat nat
  | glMemoryBarrier
  | glFramebufferTexture2D nat
  | glViewport int int
  | glDrawArrays

datatype event =
    sys sys_call
  | gbm gbm_call
  | egl egl_call
  | egl_sync egl_sync_call
  | gl gl_call

text \<open>
  A run of a piece of code: what it returns or throws, and the native calls it made, in
  order.
\<close>

type_synonym 'a run = "(error + 'a) \<times> event list"

text \<open>\<open>halts r\<close>: the process has stopped without unwinding.\<close>

definition halts :: "error + 'a \<Rightarrow> bool" where
  "halts r =
     (case r of
        Inl (undefined_behaviour _) \<Rightarrow> True
      | Inl (terminate_called _) \<Rightarrow> True
      | _ \<Rightarrow> False)"

text \<open>Sequencing: the second part runs only when the first returned.\<close>

definition then_do :: "'a run \<Rightarrow> ('a \<Rightarrow> 'b run) \<Rightarrow> 'b run" where
  "then_do m k =
     (case m of
        (Inl e, t) \<Rightarrow> (Inl e, t)
      | (Inr x, t) \<Rightarrow> (case k x of (r, t') \<Rightarrow> (r, t @ t')))"

text \<open>
  \<open>Defer\<close> of utils.h: an object whose destructor runs the stored action. \<open>Defer cleanup
  body\<close> is a scope that constructs the object and then runs \<open>body\<close>: the action runs when
  the scope is left, by return or by exception alike. The same shape models an object
  with a destructor (\<open>std::unique_ptr\<close> members, \<open>EglContext\<close>).
\<close>

definition Defer :: "event list \<Rightarrow> 'a run \<Rightarrow> 'a run" where
  "Defer cleanup body =
     (case body of (r, t) \<Rightarrow> if halts r then (r, t) else (r, t @ cleanup))"

text \<open>
  A \<open>Defer\<close> whose action can throw. The destructor of \<open>Defer\<close> is \<open>noexcept\<close>, as every
  destructor is unless declared otherwise: an exception that leaves the action calls
  \<open>std::terminate\<close>.
\<close>

definition Defer_throwing :: "unit run \<Rightarrow> 'a run \<Rightarrow> 'a run" where
  "Defer_throwing cleanup body =
     (case body of
        (r, t) \<Rightarrow>
          if halts r then (r, t)
          else (case cleanup of
                  (Inl e, t') \<Rightarrow> (Inl (terminate_called ''exception in ~Defer''), t @ t')
                | (Inr _, t') \<Rightarrow> (r, t @ t')))"

section \<open>GBM buffers (gpu.cc)\<close>

text \<open>
  \<open>FdCloser\<close> of utils.h/utils.cc: a \<open>std::unique_ptr\<close> over a file descriptor, empty when
  the descriptor is \<open>-1\<close>; its deleter closes the descriptor.
\<close>

definition FdCloser :: "int \<Rightarrow> event list" where
  "FdCloser fd = (if fd \<noteq> - 1 then [sys (sys_close fd)] else [])"

record GbmBuffer =
  width' :: nat
  height' :: nat
  bo' :: handle
  fd' :: int

text \<open>
  The answers of the native layer to one buffer: the buffer object and its descriptor,
  whether each \<open>mmap\<close> succeeds.
\<close>

record buffer_natives =
  gbm_bo_create_result :: handle
  gbm_bo_get_fd_result :: int
  mmap_result :: bool

text \<open>\<open>static_cast<uint32_t>\<close> of a \<open>std::size_t\<close>.\<close>

definition uint32_t :: "nat \<Rightarrow> nat" where
  "uint32_t n = n mod 2 ^ 32"

text \<open>Arithmetic of \<open>std::size_t\<close> (64 bits) wraps around.\<close>

definition size_t :: "nat \<Rightarrow> nat" where
  "size_t n = n mod 2 ^ 64"

text \<open>\<open>static_cast<std::streamsize>\<close>: a signed 64-bit integer.\<close>

definition streamsize :: "nat \<Rightarrow> int" where
  "streamsize n = signed_take_bit 63 (int n)"

definition gbm_bo_deleter :: "handle \<Rightarrow> event list" where
  "gbm_bo_deleter bo = (if bo \<noteq> None then [gbm (gbm_bo_destroy bo)] else [])"

text \<open>
  The constructor. \<open>fd_.reset(gbm_bo_get_fd(...))\<close> stores the new descriptor and hands the
  old one to the deleter when the old one converts to \<open>true\<close>; the old one is \<open>- 1\<close>, which
  \<open>operator int\<close> of \<open>FdCloser::pointer\<close> turns into \<open>true\<close>, so \<open>close(-1)\<close> is called.
  (\<open>bo_.reset\<close> finds a null pointer and calls nothing.) When the constructor throws after
  \<open>bo_\<close> has been set, the member \<open>bo_\<close> is destroyed as the exception leaves.
\<close>

definition GbmBuffer_ctor :: "buffer_natives \<Rightarrow> nat \<Rightarrow> nat \<Rightarrow> GbmBuffer run" where
  "GbmBuffer_ctor n w h =
     (let bo = gbm_bo_create_result n in
      if bo = None then
        (Inl (system_error ''Failed to create gbm buffer object''),
         [gbm (gbm_bo_create (uint32_t w) (uint32_t h))])
      else
        (let fd = gbm_bo_get_fd_result n in
         if fd = - 1 then
           (Inl (system_error ''Failed to get gbm buffer object fd''),
            [gbm (gbm_bo_create (uint32_t w) (uint32_t h)), gbm (gbm_bo_get_fd bo),
             sys (sys_close (- 1))] @ gbm_bo_deleter bo)
         else
           (Inr \<lparr>width' = w, height' = h, bo' = bo, fd' = fd\<rparr>,
            [gbm (gbm_bo_create (uint32_t w) (uint32_t h)), gbm (gbm_bo_get_fd bo),
             sys (sys_close (- 1))])))"

text \<open>The destructor: the members go in reverse order of declaration, \<open>fd_\<close> then \<open>bo_\<close>.\<close>

definition GbmBuffer_dtor :: "GbmBuffer \<Rightarrow> event list" where
  "GbmBuffer_dtor b = FdCloser (fd' b) @ gbm_bo_deleter (bo' b)"

subsection \<open>Host streams\<close>

text \<open>
  A \<open>std::istream\<close> as \<open>FillFrom\<close> meets it: whether it is good (a \<open>std::ifstream\<close> that
  could not open its file is not) and how many bytes it still delivers. \<open>read(data, n)\<close>
  on a stream that is not good extracts nothing; on a good one it extracts \<open>n\<close> bytes or
  all that is left, and fails in the second case. A negative count extracts nothing and
  fails.
\<close>

record istream =
  in_good :: bool
  in_avail :: nat

definition istream_extracted :: "istream \<Rightarrow> int \<Rightarrow> nat" where
  "istream_extracted s n = (if in_good s \<and> 0 \<le> n then min (nat n) (in_avail s) else 0)"

definition istream_ok :: "istream \<Rightarrow> int \<Rightarrow> bool" where
  "istream_ok s n = (in_good s \<and> 0 \<le> n \<and> nat n \<le> in_avail s)"

text \<open>
  A \<open>std::ostream\<close> as \<open>DrainTo\<close> meets it: whether it is good and how many bytes it takes
  before it reports a failure.
\<close>

record ostream =
  out_good :: bool
  out_room :: nat

definition ostream_taken :: "ostream \<Rightarrow> int \<Rightarrow> nat" where
  "ostream_taken s n = (if out_good s \<and> 0 \<le> n then min (nat n) (out_room s) else 0)"

definition ostream_ok :: "ostream \<Rightarrow> int \<Rightarrow> bool" where
  "ostream_ok s n = (out_good s \<and> 0 \<le> n \<and> nat n \<le> out_room s)"

subsection \<open>\<open>FillFrom\<close> and \<open>DrainTo\<close>\<close>

definition FillFrom :: "buffer_natives \<Rightarrow> GbmBuffer \<Rightarrow> istream \<Rightarrow> unit run" where
  "FillFrom n b stream =
     (let size = size_t (width' b * height' b * 4) in
      if \<not> mmap_result n then
        (Inl (system_error ''Failed to mmap gbm buffer object fd''),
         [sys (mmap size PROT_WRITE (fd' b))])
      else
        then_do (Inr (), [sys (mmap size PROT_WRITE (fd' b))]) (\<lambda>_.
          Defer [sys (munmap size)]
            (if istream_ok stream (streamsize size) then
               (Inr (), [sys (istream_read (streamsize size)
                                (istream_extracted stream (streamsize size)))])
             else
               (Inl (runtime_error ''Failed to read source''),
                [sys (istream_read (streamsize size)
                        (istream_extracted stream (streamsize size)))]))))"

definition DrainTo :: "buffer_natives \<Rightarrow> GbmBuffer \<Rightarrow> ostream \<Rightarrow> unit run" where
  "DrainTo n b stream =
     (let size = size_t (width' b * height' b * 4) in
      if \<not> mmap_result n then
        (Inl (system_error ''Failed to mmap gbm buffer object fd''),
         [sys (mmap size PROT_READ (fd' b))])
      else
        then_do (Inr (), [sys (mmap size PROT_READ (fd' b))]) (\<lambda>_.
          Defer [sys (munmap size)]
            (if ostream_ok stream (streamsize size) then
               (Inr (), [sys (ostream_write (streamsize size)
                                (ostream_taken stream (streamsize size)))])
             else
               (Inl (runtime_error ''Failed to write target''),
                [sys (ostream_write (streamsize size)
                        (ostream_taken stream (streamsize size)))]))))"

section \<open>The EGL context (gpu.cc)\<close>

subsection \<open>Error texts\<close>

text \<open>
  \<open>LookupError\<close> walks a table of pairs and returns the text of the first pair with the
  key, \<open>???\<close> when there is none. The keys of \<open>kEglErrors\<close> are the error codes of
  \<open>EGL/egl.h\<close> (a header of the platform, not of this repository), given here by their
  values.
\<close>

fun LookupError :: "('k \<times> string) list \<Rightarrow> 'k \<Rightarrow> string" where
  "LookupError [] key = ''???''"
| "LookupError (it # list) key = (if fst it = key then snd it else LookupError list key)"

definition kEglErrors :: "(int \<times> string) list" where
  "kEglErrors =
     [(0x3000, ''EGL_SUCCESS''), (0x3001, ''EGL_NOT_INITIALIZED''),
      (0x3002, ''EGL_BAD_ACCESS''), (0x3003, ''EGL_BAD_ALLOC''),
      (0x3004, ''EGL_BAD_ATTRIBUTE''), (0x3005, ''EGL_BAD_CONFIG''),
      (0x3006, ''EGL_BAD_CONTEXT''), (0x3007, ''EGL_BAD_CURRENT_SURFACE''),
      (0x3008, ''EGL_BAD_DISPLAY''), (0x3009, ''EGL_BAD_MATCH''),
      (0x300A, ''EGL_BAD_NATIVE_PIXMAP''), (0x300B, ''EGL_BAD_NATIVE_WINDOW''),
      (0x300C, ''EGL_BAD_PARAMETER''), (0x300D, ''EGL_BAD_SURFACE''),
      (0x300E, ''EGL_CONTEXT_LOST'')]"

definition kGlErrors :: "(int \<times> string) list" where
  "kGlErrors =
     [(0, ''GL_NO_ERROR''), (0x0500, ''GL_INVALID_ENUM''), (0x0501, ''GL_INVALID_VALUE''),
      (0x0502, ''GL_INVALID_OPERATION''), (0x0505, ''GL_OUT_OF_MEMORY''),
      (0x0506, ''GL_INVALID_FRAMEBUFFER_OPERATION'')]"

definition WrapEglError :: "string \<Rightarrow> int \<Rightarrow> string" where
  "WrapEglError message err = message @ '': '' @ LookupError kEglErrors err"

definition WrapGlError :: "string \<Rightarrow> int \<Rightarrow> string" where
  "WrapGlError message err = message @ '': '' @ LookupError kGlErrors err"

subsection \<open>\<open>VerifyExtension\<close>\<close>

text \<open>
  \<open>std::string_view::find\<close>: the first position where \<open>needle\<close> starts in \<open>haystack\<close>,
  \<open>None\<close> for \<open>npos\<close>.
\<close>

fun is_prefix :: "string \<Rightarrow> string \<Rightarrow> bool" where
  "is_prefix [] ys = True"
| "is_prefix (x # xs) [] = False"
| "is_prefix (x # xs) (y # ys) = (x = y \<and> is_prefix xs ys)"

fun string_view_find :: "string \<Rightarrow> string \<Rightarrow> nat option" where
  "string_view_find [] needle = (if needle = [] then Some 0 else None)"
| "string_view_find (c # cs) needle =
     (if is_prefix needle (c # cs) then Some 0
      else map_option Suc (string_view_find cs needle))"

definition VerifyExtension :: "string \<Rightarrow> string \<Rightarrow> error + unit" where
  "VerifyExtension haystack needle =
     (if string_view_find haystack needle = None then
        Inl (runtime_error (''Required extenstion '' @ needle @ '' is not supported''))
      else Inr ())"

subsection \<open>The context\<close>

record EglContext =
  display' :: handle
  context' :: handle

text \<open>
  The answers of EGL: the two extension strings (\<open>None\<close> a null pointer), the handles it
  hands out, whether each call succeeds, and what \<open>eglGetError\<close> reports after a failure.
\<close>

record egl_natives =
  eglQueryString_platform :: "string option"
  eglGetPlatformDisplay_result :: handle
  eglInitialize_result :: bool
  eglQueryString_display :: "string option"
  eglBindAPI_result :: bool
  eglCreateContext_result :: handle
  eglMakeCurrent_result :: bool
  eglResetCurrent_result :: bool
  eglCreateSync_result :: handle
  eglClientWaitSync_result :: int
  eglDestroySync_result :: bool
  eglGetError_result :: int

text \<open>
  The action of \<open>deferred_egl_terminate\<close>, on the value the local variable \<open>display\<close> has
  when the scope is left.
\<close>

definition deferred_egl_terminate :: "handle \<Rightarrow> event list" where
  "deferred_egl_terminate display =
     (if display \<noteq> None then [egl (eglTerminate display)] else [])"

text \<open>
  The statements of the constructor behind the \<open>Defer\<close>, up to the creation of the
  context.
\<close>

definition EglContext_init :: "egl_natives \<Rightarrow> handle \<Rightarrow> EglContext run" where
  "EglContext_init n display =
     then_do (if eglInitialize_result n then Inr ()
              else Inl (runtime_error (WrapEglError ''Failed to initialize egl display''
                          (eglGetError_result n))),
              [egl (eglInitialize display)]) (\<lambda>_.
     then_do (case eglQueryString_display n of
                None \<Rightarrow> Inl (runtime_error (WrapEglError
                          ''Failed to query platform egl extensions'' (eglGetError_result n)))
              | Some egl_ext \<Rightarrow> Inr egl_ext,
              [egl (eglQueryString display)]) (\<lambda>egl_ext.
     then_do (VerifyExtension egl_ext ''EGL_KHR_surfaceless_context'', []) (\<lambda>_.
     then_do (VerifyExtension egl_ext ''EGL_KHR_no_config_context'', []) (\<lambda>_.
     then_do (VerifyExtension egl_ext ''EGL_EXT_image_dma_buf_import'', []) (\<lambda>_.
     then_do (if eglBindAPI_result n then Inr ()
              else Inl (runtime_error (WrapEglError ''Failed to bind egl api''
                          (eglGetError_result n))),
              [egl eglBindAPI]) (\<lambda>_.
     then_do (if eglCreateContext_result n = None then
                Inl (runtime_error (WrapEglError ''Failed to create egl context''
                       (eglGetError_result n)))
              else Inr (),
              [egl (eglCreateContext display (eglCreateContext_result n))]) (\<lambda>_.
     (Inr \<lparr>display' = display, context' = eglCreateContext_result n\<rparr>, []))))))))"

text \<open>
  The scope of \<open>deferred_egl_terminate\<close>. The last statement of the constructor,
  \<open>display_ = std::exchange(display, EGL_NO_DISPLAY)\<close>, cannot throw; so the variable is
  \<open>EGL_NO_DISPLAY\<close> when the scope is left exactly when the statements before it
  returned.
\<close>

definition EglContext_scope :: "egl_natives \<Rightarrow> handle \<Rightarrow> EglContext run" where
  "EglContext_scope n display =
     (case EglContext_init n display of
        (Inl e, t) \<Rightarrow> (Inl e, t @ deferred_egl_terminate display)
      | (Inr c, t) \<Rightarrow> (Inr c, t @ deferred_egl_terminate None))"

definition EglContext_ctor :: "egl_natives \<Rightarrow> EglContext run" where
  "EglContext_ctor n =
     then_do (case eglQueryString_platform n of
                None \<Rightarrow> Inl (runtime_error (WrapEglError
                          ''Failed to query platformless egl extensions'' (eglGetError_result n)))
              | Some egl_ext \<Rightarrow> Inr egl_ext,
              [egl (eglQueryString None)]) (\<lambda>egl_ext.
     then_do (VerifyExtension egl_ext ''EGL_MESA_platform_surfaceless'', []) (\<lambda>_.
     then_do (if eglGetPlatformDisplay_result n = None then
                Inl (runtime_error (WrapEglError ''Failed to get platform display''
                       (eglGetError_result n)))
              else Inr (),
              [egl (eglGetPlatformDisplay (eglGetPlatformDisplay_result n))]) (\<lambda>_.
     EglContext_scope n (eglGetPlatformDisplay_result n))))"

definition EglContext_dtor :: "EglContext \<Rightarrow> event list" where
  "EglContext_dtor c =
     [egl (eglDestroyContext (display' c) (context' c)), egl (eglTerminate (display' c))]"

definition MakeCurrent :: "egl_natives \<Rightarrow> EglContext \<Rightarrow> unit run" where
  "MakeCurrent n c =
     (if \<not> eglMakeCurrent_result n then
        Inl (runtime_error (WrapEglError ''Failed to make EGL context current''
               (eglGetError_result n)))
      else Inr (),
      [egl (eglMakeCurrent (display' c) (context' c))])"

definition ResetCurrent :: "egl_natives \<Rightarrow> EglContext \<Rightarrow> unit run" where
  "ResetCurrent n c =
     (if \<not> eglResetCurrent_result n then
        Inl (runtime_error (WrapEglError ''Failed to reset current EGL context''
               (eglGetError_result n)))
      else Inr (),
      [egl (eglMakeCurrent (display' c) None)])"

text \<open>
  \<open>Sync\<close>: the values \<open>eglClientWaitSync\<close> and \<open>eglDestroySync\<close> return are not looked at.
\<close>

definition Sync :: "egl_natives \<Rightarrow> EglContext \<Rightarrow> unit run" where
  "Sync n c =
     (let sync = eglCreateSync_result n in
      if sync = None then
        (Inl (runtime_error (WrapEglError ''Failed to create egl fence sync''
                (eglGetError_result n))),
         [egl_sync (eglCreateSync (display' c))])
      else
        (Inr (),
         [egl_sync (eglCreateSync (display' c)),
          egl_sync (eglClientWaitSync (display' c) sync),
          egl_sync (eglDestroySync (display' c) sync)]))"

subsection \<open>What a trace acquires and releases\<close>

text \<open>
  The EGL resources a trace acquires (a display that \<open>eglGetPlatformDisplay\<close> returned, a
  context that \<open>eglCreateContext\<close> returned) and the ones it releases (\<open>eglTerminate\<close>,
  \<open>eglDestroyContext\<close>), each in the order of the calls.
\<close>

datatype resource = the_display handle | the_context handle

fun acquires :: "event \<Rightarrow> resource list" where
  "acquires (egl (eglGetPlatformDisplay d)) = (if d \<noteq> None then [the_display d] else [])"
| "acquires (egl (eglCreateContext d c)) = (if c \<noteq> None then [the_context c] else [])"
| "acquires _ = []"

fun releases :: "event \<Rightarrow> resource list" where
  "releases (egl (eglTerminate d)) = [the_display d]"
| "releases (egl (eglDestroyContext d c)) = [the_context c]"
| "releases _ = []"

definition acquired :: "event list \<Rightarrow> resource list" where
  "acquired t = concat (map acquires t)"

definition released :: "event list \<Rightarrow> resource list" where
  "released t = concat (map releases t)"

section \<open>The shaders\<close>

text \<open>
  The arithmetic of the shaders over the real numbers: a component of a texel is a real
  in \<open>[0, 1]\<close>, and the rounding of GLSL floats (\<open>mediump\<close> in the fragment shader) and the
  conversion of the result to a byte are not modelled. A \<open>vec4\<close> has the components
  \<open>r\<close>, \<open>g\<close>, \<open>b\<close>, \<open>a\<close> of GLSL, here \<open>red\<close>, \<open>green\<close>, \<open>blue\<close>, \<open>alpha\<close>.
\<close>

datatype vec4 = vec4 (red: real) (green: real) (blue: real) (alpha: real)

datatype vec3 = vec3 (red3: real) (green3: real) (blue3: real)

type_synonym vec2 = "real \<times> real"

definition add2 :: "vec2 \<Rightarrow> vec2 \<Rightarrow> vec2" where
  "add2 p q = (fst p + fst q, snd p + snd q)"

definition div2 :: "vec2 \<Rightarrow> real \<Rightarrow> vec2" where
  "div2 p k = (fst p / k, snd p / k)"

text \<open>The swizzles the shaders use: \<open>v.gb\<close> of a \<open>vec3\<close>, \<open>v.bgra\<close> of a \<open>vec4\<close>.\<close>

definition swizzle_gb :: "vec3 \<Rightarrow> vec2" where
  "swizzle_gb v = (green3 v, blue3 v)"

definition swizzle_bgra :: "vec4 \<Rightarrow> vec4" where
  "swizzle_bgra v = vec4 (blue v) (green v) (red v) (alpha v)"

text \<open>The constructor \<open>vec4(p, q)\<close> of two \<open>vec2\<close>.\<close>

definition vec4_of_pairs :: "vec2 \<Rightarrow> vec2 \<Rightarrow> vec4" where
  "vec4_of_pairs p q = vec4 (fst p) (snd p) (fst q) (snd q)"

text \<open>
  Output channel \<open>i\<close> of a store, \<open>i\<close> from 0 to 3, in the order in which the format of
  the destination buffer names its channels: the buffer is created as
  \<open>GBM_BO_FORMAT_ARGB8888\<close> and imported as \<open>DRM_FORMAT_ARGB8888\<close> (gpu.cc), so channel 0
  is A, 1 is R, 2 is G and 3 is B.
\<close>

definition channel_argb :: "vec4 \<Rightarrow> nat \<Rightarrow> real" where
  "channel_argb v i = [alpha v, red v, green v, blue v] ! i"

subsection \<open>The compute shader (framesconv\_es31.cc)\<close>

definition rgb2yuv :: "vec4 \<Rightarrow> vec3" where
  "rgb2yuv rgb =
     (let y = red rgb * 0.2126 + green rgb * 0.7152 + blue rgb * 0.0722;
          u = (blue rgb - y) / (2 * (1 - 0.0722));
          v = (red rgb - y) / (2 * (1 - 0.2126))
      in vec3 y (u + 0.5) (v + 0.5))"

text \<open>
  An invocation is identified by \<open>gl_GlobalInvocationID.xy\<close>. The work group is
  \<open>local_size_x = 2, local_size_y = 2\<close>: a dispatch of \<open>gx\<close> by \<open>gy\<close> groups runs the
  invocations with \<open>x < gx * 2\<close> and \<open>y < gy * 2\<close>.
\<close>

definition local_size :: "nat \<times> nat" where
  "local_size = (2, 2)"

definition invocations :: "nat \<Rightarrow> nat \<Rightarrow> (nat \<times> nat) list" where
  "invocations gx gy =
     concat (map (\<lambda>y. map (\<lambda>x. (x, y)) [0..<gx * fst local_size]) [0..<gy * snd local_size])"

definition src_upper_left :: "nat \<times> nat \<Rightarrow> nat \<times> nat" where
  "src_upper_left gid = (fst gid * 4, snd gid * 2)"

definition src_offset :: "(nat \<times> nat) list" where
  "src_offset = [(0, 0), (1, 0), (2, 0), (3, 0), (0, 1), (1, 1), (2, 1), (3, 1)]"

text \<open>The texels of the source image an invocation loads.\<close>

definition src_texels :: "nat \<times> nat \<Rightarrow> (nat \<times> nat) list" where
  "src_texels gid =
     map (\<lambda>off. (fst (src_upper_left gid) + fst off, snd (src_upper_left gid) + snd off))
       src_offset"

text \<open>
  \<open>main\<close> of the compute shader: the stores of one invocation, each a position in the
  output image and the \<open>vec4\<close> stored there. \<open>img_input\<close> is the source image as
  \<open>imageLoad\<close> reads it and \<open>img_input_size\<close> its size.
\<close>

definition compute_main ::
  "(nat \<times> nat \<Rightarrow> vec4) \<Rightarrow> nat \<times> nat \<Rightarrow> nat \<times> nat \<Rightarrow> ((nat \<times> nat) \<times> vec4) list" where
  "compute_main img_input img_input_size gid =
     (let rgb = map img_input (src_texels gid);
          yuv = map rgb2yuv rgb;
          dst_upper_left_luma = (fst gid, snd gid * 2);
          dst_upper_left_chroma = (fst gid, snd gid + snd img_input_size)
      in [((fst dst_upper_left_luma, snd dst_upper_left_luma),
           vec4 (red3 (yuv ! 0)) (red3 (yuv ! 1)) (red3 (yuv ! 2)) (red3 (yuv ! 3))),
          ((fst dst_upper_left_luma, snd dst_upper_left_luma + 1),
           vec4 (red3 (yuv ! 4)) (red3 (yuv ! 5)) (red3 (yuv ! 6)) (red3 (yuv ! 7))),
          (dst_upper_left_chroma,
           vec4_of_pairs
             (div2 (add2 (add2 (add2 (swizzle_gb (yuv ! 0)) (swizzle_gb (yuv ! 1)))
                            (swizzle_gb (yuv ! 4))) (swizzle_gb (yuv ! 5))) 4)
             (div2 (add2 (add2 (add2 (swizzle_gb (yuv ! 2)) (swizzle_gb (yuv ! 3)))
                            (swizzle_gb (yuv ! 6))) (swizzle_gb (yuv ! 7))) 4))])"

subsection \<open>The fragment shader (framesconv\_es20.cc)\<close>

text \<open>
  The fragment shader of the version that writes both planes. \<open>img_input\<close> is the
  source image as \<open>texture2D\<close> samples it, at normalised coordinates. The source comment
  at \<open>rgb2luma\<close> and \<open>rgb2chroma\<close> says that \<open>r\<close> and \<open>b\<close> are exchanged in these two
  functions because the sampled texel has them exchanged: the buffer is imported as
  ARGB, the file is RGBA.
\<close>

definition rgb2luma :: "vec4 \<Rightarrow> real" where
  "rgb2luma rgb = blue rgb * 0.2126 + green rgb * 0.7152 + red rgb * 0.0722"

definition rgb2chroma :: "vec4 \<Rightarrow> vec2" where
  "rgb2chroma rgb =
     (let y = blue rgb * 0.2126 + green rgb * 0.7152 + red rgb * 0.0722;
          u = (red rgb - y) / (2 * (1 - 0.0722));
          v = (blue rgb - y) / (2 * (1 - 0.2126))
      in (u + 0.5, v + 0.5))"

text \<open>The four logical luma samples of one store, in the order \<open>luma[0]\<close> to \<open>luma[3]\<close>.\<close>

definition luma_samples :: "(vec2 \<Rightarrow> vec4) \<Rightarrow> vec2 \<Rightarrow> vec2 \<Rightarrow> real list" where
  "luma_samples img_input img_input_size dst_upper_left =
     (let src_upper_left = (fst dst_upper_left * 4, snd dst_upper_left / 2 * 3);
          pix_width = 1 / fst img_input_size;
          src_offset = [(0, 0), (pix_width, 0), (pix_width * 2, 0), (pix_width * 3, 0)];
          rgb = map (\<lambda>off. img_input (add2 src_upper_left off)) src_offset
      in map rgb2luma rgb)"

definition handle_luma :: "(vec2 \<Rightarrow> vec4) \<Rightarrow> vec2 \<Rightarrow> vec2 \<Rightarrow> vec4" where
  "handle_luma img_input img_input_size dst_upper_left =
     (let luma = luma_samples img_input img_input_size dst_upper_left
      in swizzle_bgra (vec4 (luma ! 0) (luma ! 1) (luma ! 2) (luma ! 3)))"

definition handle_chroma :: "(vec2 \<Rightarrow> vec4) \<Rightarrow> vec2 \<Rightarrow> vec2 \<Rightarrow> vec4" where
  "handle_chroma img_input img_input_size dst_upper_left =
     (let src_upper_left = (fst dst_upper_left * 4, (snd dst_upper_left - 2 / 3) * 3);
          pix_width = 1 / fst img_input_size;
          pix_height = 1 / snd img_input_size;
          src_offset = [(0, 0), (pix_width, 0), (pix_width * 2, 0), (pix_width * 3, 0),
                        (0, pix_height), (pix_width, pix_height),
                        (pix_width * 2, pix_height), (pix_width * 3, pix_height)];
          rgb = map (\<lambda>off. img_input (add2 src_upper_left off)) src_offset;
          chroma = map rgb2chroma rgb
      in swizzle_bgra
           (vec4_of_pairs
              (div2 (add2 (add2 (add2 (chroma ! 0) (chroma ! 1)) (chroma ! 4)) (chroma ! 5)) 4)
              (div2 (add2 (add2 (add2 (chroma ! 2) (chroma ! 3)) (chroma ! 6)) (chroma ! 7)) 4)))"

definition fragment_main :: "(vec2 \<Rightarrow> vec4) \<Rightarrow> vec2 \<Rightarrow> vec2 \<Rightarrow> vec4" where
  "fragment_main img_input img_input_size dst_upper_left =
     (if snd dst_upper_left < 2 / 3 then handle_luma img_input img_input_size dst_upper_left
      else handle_chroma img_input img_input_size dst_upper_left)"

text \<open>
  The fragment shader of the earlier version that writes the luma plane only: it has
  \<open>rgb2yuv\<close> as the compute shader has it, and names the order of the store component by
  component.
\<close>

definition luma_only_samples :: "(vec2 \<Rightarrow> vec4) \<Rightarrow> vec2 \<Rightarrow> vec2 \<Rightarrow> real list" where
  "luma_only_samples img_input img_input_size dst_upper_left =
     (let src_upper_left = (fst dst_upper_left * 4, snd dst_upper_left);
          pix_width = 1 / fst img_input_size;
          src_offset = [(0, 0), (pix_width, 0), (pix_width * 2, 0), (pix_width * 3, 0)];
          rgb = map (\<lambda>off. img_input (add2 src_upper_left off)) src_offset
      in map (\<lambda>c. red3 (rgb2yuv c)) rgb)"

definition fragment_main_luma_only :: "(vec2 \<Rightarrow> vec4) \<Rightarrow> vec2 \<Rightarrow> vec2 \<Rightarrow> vec4" where
  "fragment_main_luma_only img_input img_input_size dst_upper_left =
     (let yuv = luma_only_samples img_input img_input_size dst_upper_left
      in vec4 (yuv ! 2) (yuv ! 1) (yuv ! 0) (yuv ! 3))"

section \<open>Import and conversion on the GPU\<close>

subsection \<open>\<open>CreateEglImage\<close> (gpu.cc)\<close>

text \<open>
  The attribute list names the width, the height, the descriptor and the pitch
  \<open>width_ * 4\<close> of the buffer; the format and the offset 0 are constants. The event
  carries the display and these four attributes.
\<close>

definition CreateEglImage :: "handle \<Rightarrow> int \<Rightarrow> GbmBuffer \<Rightarrow> handle \<Rightarrow> handle run" where
  "CreateEglImage eglCreateImage_result err b display =
     (if eglCreateImage_result = None then
        Inl (runtime_error (WrapEglError ''Failed to create egl image'' err))
      else Inr eglCreateImage_result,
      [egl (eglCreateImage display (width' b) (height' b) (fd' b) (size_t (width' b * 4)))])"

subsection \<open>Steps whose inside is not followed\<close>

text \<open>
  \<open>CreateGlTexture\<close> (gpu.cc) and the construction of the conversion object
  (\<open>CreateFramesconvES20\<close>, \<open>CreateFramesconvES31\<close>) are single steps here: each returns
  what the native layer lets it return, a GL name, or throws. What they release when
  they throw stays inside the step.
\<close>

definition CreateGlTexture :: "error + nat \<Rightarrow> handle \<Rightarrow> nat run" where
  "CreateGlTexture outcome img = (outcome, [gl (CreateGlTexture_import img)])"

record Framesconv =
  is_es20 :: bool
  program' :: nat

definition CreateFramesconv :: "error + nat \<Rightarrow> bool \<Rightarrow> Framesconv run" where
  "CreateFramesconv outcome impl =
     (case outcome of
        Inl e \<Rightarrow> Inl e
      | Inr program \<Rightarrow> Inr \<lparr>is_es20 = impl, program' = program\<rparr>,
      [gl (CreateFramesconv_build impl)])"

definition Framesconv_dtor :: "Framesconv \<Rightarrow> event list" where
  "Framesconv_dtor f = [gl (Framesconv_delete (is_es20 f))]"

subsection \<open>\<open>FramesconvES31::Convert\<close> (framesconv\_es31.cc)\<close>

text \<open>
  \<open>err\<close> is what \<open>glGetError\<close> reports after the dispatch and the barrier; \<open>GL_NO_ERROR\<close>
  is 0. The arguments of \<open>glDispatchCompute\<close> are cast to \<open>GLuint\<close>.
\<close>

definition FramesconvES31_Convert ::
  "int \<Rightarrow> Framesconv \<Rightarrow> nat \<Rightarrow> nat \<Rightarrow> nat \<Rightarrow> nat \<Rightarrow> unit run" where
  "FramesconvES31_Convert err f texture_rgbx w h texture_nv12 =
     (if err \<noteq> 0 then Inl (runtime_error (WrapGlError ''Failed to dispatch compute'' err))
      else Inr (),
      [gl (glUseProgram (program' f)),
       gl (glBindImageTexture 0 texture_rgbx),
       gl (glBindImageTexture 1 texture_nv12),
       gl (glDispatchCompute (uint32_t (w div 8)) (uint32_t (h div 4)) 1),
       gl glMemoryBarrier])"

subsection \<open>\<open>FramesconvES20::Convert\<close> (framesconv\_es20.cc)\<close>

text \<open>
  \<open>printf_04x\<close>: the conversion \<open>%04x\<close> of \<open>snprintf\<close>, lower-case hexadecimal padded with
  zeros to four digits.
\<close>

definition hex_digit :: "nat \<Rightarrow> char" where
  "hex_digit d = ''0123456789abcdef'' ! d"

function hex_digits :: "nat \<Rightarrow> string" where
  "hex_digits n = (if n < 16 then [hex_digit n] else hex_digits (n div 16) @ [hex_digit (n mod 16)])"
  by pat_completeness auto
termination
  by (relation "measure id") auto

definition printf_04x :: "nat \<Rightarrow> string" where
  "printf_04x n = replicate (4 - length (hex_digits n)) CHR ''0'' @ hex_digits n"

definition GL_FRAMEBUFFER_COMPLETE :: nat where
  "GL_FRAMEBUFFER_COMPLETE = 0x8CD5"

text \<open>
  The version that writes both planes: the viewport is \<open>width\<close> by \<open>height * 3 / 2\<close>, both
  cast to \<open>GLsizei\<close>. \<open>status\<close> is what \<open>glCheckFramebufferStatus\<close> returns and \<open>err\<close> what
  \<open>glGetError\<close> reports after the draw.
\<close>

definition GLsizei :: "nat \<Rightarrow> int" where
  "GLsizei n = signed_take_bit 31 (int n)"

definition FramesconvES20_Convert ::
  "nat \<Rightarrow> int \<Rightarrow> Framesconv \<Rightarrow> nat \<Rightarrow> nat \<Rightarrow> nat \<Rightarrow> nat \<Rightarrow> unit run" where
  "FramesconvES20_Convert status err f texture_rgbx w h texture_nv12 =
     (if status \<noteq> GL_FRAMEBUFFER_COMPLETE then
        (Inl (runtime_error (''Framebuffer is incomplete (0x'' @ printf_04x status @ '')'')),
         [gl (glFramebufferTexture2D texture_nv12)])
      else
        (if err \<noteq> 0 then Inl (runtime_error (WrapGlError ''Conversion failed'' err))
         else Inr (),
         [gl (glFramebufferTexture2D texture_nv12),
          gl (glViewport (GLsizei w) (GLsizei (size_t (h * 3) div 2))),
          gl (glUseProgram (program' f)),
          gl glDrawArrays,
          gl (glUseProgram 0)]))"

section \<open>The orchestrator (main.cc)\<close>

subsection \<open>\<open>GbmDevice\<close> (gpu.cc)\<close>

text \<open>The members \<open>fd_\<close> and \<open>device_\<close>; \<open>fd_\<close> is \<open>node_fd\<close> here.\<close>

record GbmDevice =
  node_fd :: int
  device' :: handle

text \<open>
  The constructor. As in \<open>GbmBuffer\<close>, \<open>fd_.reset(open(...))\<close> hands the old descriptor
  \<open>- 1\<close> to the deleter, which calls \<open>close(-1)\<close>, whatever \<open>open\<close> returned;
  \<open>device_.reset\<close> finds a null pointer and calls nothing.
\<close>

definition GbmDevice_ctor :: "int \<Rightarrow> handle \<Rightarrow> string option \<Rightarrow> GbmDevice run" where
  "GbmDevice_ctor open_result gbm_create_device_result node =
     (if open_result = - 1 then
        (Inl (system_error ''Failed to open redner node''),
         [sys (sys_open node), sys (sys_close (- 1))])
      else if gbm_create_device_result = None then
        (Inl (system_error ''Failed to create gbm device''),
         [sys (sys_open node), sys (sys_close (- 1)), gbm (gbm_create_device open_result)] @
         FdCloser open_result)
      else
        (Inr \<lparr>node_fd = open_result, device' = gbm_create_device_result\<rparr>,
         [sys (sys_open node), sys (sys_close (- 1)), gbm (gbm_create_device open_result)]))"

definition GbmDevice_dtor :: "GbmDevice \<Rightarrow> event list" where
  "GbmDevice_dtor d =
     (if device' d \<noteq> None then [gbm (gbm_device_destroy (device' d))] else []) @
     FdCloser (node_fd d)"

subsection \<open>The answers of the native layer to one run of \<open>main\<close>\<close>

record natives =
  open_result :: int
  gbm_create_device_result :: handle
  rgbx :: buffer_natives
  nv12 :: buffer_natives
  source :: istream
  sink :: ostream
  egl_answers :: egl_natives
  eglCreateImage_rgbx :: handle
  eglCreateImage_nv12 :: handle
  CreateGlTexture_rgbx :: "error + nat"
  CreateGlTexture_nv12 :: "error + nat"
  CreateFramesconv_outcome :: "error + nat"
  glCheckFramebufferStatus_result :: nat
  glGetError_result :: int
  strerror_errno :: string
  millis :: nat

subsection \<open>\<open>main\<close>\<close>

datatype exit_status = EXIT_SUCCESS | EXIT_FAILURE | no_exit

text \<open>
  \<open>what()\<close> of an exception. A \<open>std::system_error\<close> constructed from \<open>errno\<close>, the system
  category and a text answers with the text, \<open>": "\<close> and the description of that \<open>errno\<close>,
  which is \<open>description\<close> here (\<open>strerror_errno\<close> among the answers of the native layer:
  a run throws at most one exception).
\<close>

definition what :: "string \<Rightarrow> error \<Rightarrow> string" where
  "what description e =
     (case e of
        invalid_argument s \<Rightarrow> s
      | runtime_error s \<Rightarrow> s
      | system_error s \<Rightarrow> s @ '': '' @ description
      | undefined_behaviour s \<Rightarrow> s
      | terminate_called s \<Rightarrow> s)"

text \<open>The handler of \<open>main\<close>: \<open>catch (const std::exception& ex)\<close>.\<close>

definition catch_exception :: "string \<Rightarrow> 'a run \<Rightarrow> exit_status \<times> event list" where
  "catch_exception description body =
     (case body of
        (Inr _, t) \<Rightarrow> (EXIT_SUCCESS, t)
      | (Inl e, t) \<Rightarrow>
          if halts (Inl e :: error + unit) then (no_exit, t)
          else (EXIT_FAILURE, t @ [sys (cerr_what (what description e))]))"

text \<open>
  The two places where \<open>main\<close> chooses between a named file and the standard stream.
  \<open>source n\<close> and \<open>sink n\<close> are the streams as the choice leaves them.
\<close>

definition fill_source :: "natives \<Rightarrow> Options \<Rightarrow> GbmBuffer \<Rightarrow> unit run" where
  "fill_source n options buffer_rgbx =
     (case input options of
        Some path \<Rightarrow>
          then_do (Inr (), [sys (ifstream_ctor path)]) (\<lambda>_.
            FillFrom (rgbx n) buffer_rgbx (source n))
      | None \<Rightarrow> FillFrom (rgbx n) buffer_rgbx (source n))"

definition drain_result :: "natives \<Rightarrow> Options \<Rightarrow> GbmBuffer \<Rightarrow> unit run" where
  "drain_result n options buffer_nv12 =
     (case output' options of
        Some path \<Rightarrow>
          then_do (Inr (), [sys (ofstream_ctor path)]) (\<lambda>_.
            DrainTo (nv12 n) buffer_nv12 (sink n))
      | None \<Rightarrow> DrainTo (nv12 n) buffer_nv12 (sink n))"

definition Convert ::
  "natives \<Rightarrow> Framesconv \<Rightarrow> nat \<Rightarrow> nat \<Rightarrow> nat \<Rightarrow> nat \<Rightarrow> unit run" where
  "Convert n f texture_rgbx w h texture_nv12 =
     (if is_es20 f then
        FramesconvES20_Convert (glCheckFramebufferStatus_result n) (glGetError_result n)
          f texture_rgbx w h texture_nv12
      else
        FramesconvES31_Convert (glGetError_result n) f texture_rgbx w h texture_nv12)"

text \<open>
  The part of \<open>main\<close> that runs with the context current: from the import of the source
  buffer to the draining of the destination buffer.
\<close>

definition convert_frames ::
  "natives \<Rightarrow> Options \<Rightarrow> GbmBuffer \<Rightarrow> GbmBuffer \<Rightarrow> EglContext \<Rightarrow> unit run" where
  "convert_frames n options buffer_rgbx buffer_nv12 context =
     (let display = display' context in
      then_do (CreateEglImage (eglCreateImage_rgbx n) (eglGetError_result (egl_answers n))
                 buffer_rgbx display) (\<lambda>image_rgbx.
      Defer [egl (eglDestroyImage display image_rgbx)] (
      then_do (CreateGlTexture (CreateGlTexture_rgbx n) image_rgbx) (\<lambda>texture_rgbx.
      Defer [gl (glDeleteTextures texture_rgbx)] (
      then_do (CreateEglImage (eglCreateImage_nv12 n) (eglGetError_result (egl_answers n))
                 buffer_nv12 display) (\<lambda>image_nv12.
      Defer [egl (eglDestroyImage display image_nv12)] (
      then_do (CreateGlTexture (CreateGlTexture_nv12 n) image_nv12) (\<lambda>texture_nv12.
      Defer [gl (glDeleteTextures texture_nv12)] (
      then_do (CreateFramesconv (CreateFramesconv_outcome n) (es20 options)) (\<lambda>framesconv.
      Defer (Framesconv_dtor framesconv) (
      then_do (Convert n framesconv texture_rgbx (width options) (height options)
                 texture_nv12) (\<lambda>_.
      then_do (Sync (egl_answers n) context) (\<lambda>_.
      then_do (Inr (), [sys (cerr_millis (millis n))]) (\<lambda>_.
      drain_result n options buffer_nv12))))))))))))))"

text \<open>
  \<open>main\<close> of the newest main.cc. The destination buffer is \<open>width / 4\<close> by
  \<open>height * 3 / 2\<close>. (The constructor of \<open>EglContext\<close> that takes the version is not among
  the sources; the context is constructed as gpu.cc constructs it.)
\<close>

definition run_main :: "natives \<Rightarrow> Options \<Rightarrow> unit run" where
  "run_main n options =
     then_do (GbmDevice_ctor (open_result n) (gbm_create_device_result n)
                (render_node options)) (\<lambda>device.
     Defer (GbmDevice_dtor device) (
     then_do (GbmBuffer_ctor (rgbx n) (width options) (height options)) (\<lambda>buffer_rgbx.
     Defer (GbmBuffer_dtor buffer_rgbx) (
     then_do (fill_source n options buffer_rgbx) (\<lambda>_.
     then_do (GbmBuffer_ctor (nv12 n) (width options div 4)
                (size_t (height options * 3) div 2)) (\<lambda>buffer_nv12.
     Defer (GbmBuffer_dtor buffer_nv12) (
     then_do (EglContext_ctor (egl_answers n)) (\<lambda>context.
     Defer (EglContext_dtor context) (
     then_do (MakeCurrent (egl_answers n) context) (\<lambda>_.
     Defer_throwing (ResetCurrent (egl_answers n) context) (
     convert_frames n options buffer_rgbx buffer_nv12 context)))))))))))"

definition main :: "string list \<Rightarrow> natives \<Rightarrow> exit_status \<times> event list" where
  "main argv n =
     catch_exception (strerror_errno n)
       (then_do (ParseCommandline argv, []) (\<lambda>options. run_main n options))"

section \<open>Reading a command line and a trace\<close>


text \<open>
  A size as \<open>Options\<close> holds it while the command line is read: 0 as long as the option
  has not been met, otherwise positive, below \<open>2 ^ 31\<close> and a multiple of \<open>k\<close>.
\<close>

definition size_ok :: "nat \<Rightarrow> nat \<Rightarrow> bool" where
  "size_ok k v = (v = 0 \<or> (0 < v \<and> v < 2 ^ 31 \<and> k dvd v))"


text \<open>The number of bytes a trace writes to the sink.\<close>

fun bytes_written :: "event \<Rightarrow> nat" where
  "bytes_written (sys (ostream_write n k)) = k"
| "bytes_written _ = 0"

definition drained :: "event list \<Rightarrow> nat" where
  "drained t = sum_list (map bytes_written t)"

section \<open>A native layer where every call succeeds\<close>

text \<open>
  Answers used in the examples below: an EGL with the four extensions, handles that are
  not null, a source with 512 bytes (a 16 by 8 image) and a sink that takes 192.
\<close>

definition example_egl :: egl_natives where
  "example_egl =
     \<lparr>eglQueryString_platform = Some ''EGL_EXT_platform_base EGL_MESA_platform_surfaceless'',
      eglGetPlatformDisplay_result = Some 1,
      eglInitialize_result = True,
      eglQueryString_display =
        Some (''EGL_KHR_surfaceless_context EGL_KHR_no_config_context '' @
              ''EGL_EXT_image_dma_buf_import''),
      eglBindAPI_result = True,
      eglCreateContext_result = Some 2,
      eglMakeCurrent_result = True,
      eglResetCurrent_result = True,
      eglCreateSync_result = Some 3,
      eglClientWaitSync_result = 0,
      eglDestroySync_result = True,
      eglGetError_result = 0x3003\<rparr>"

definition example_natives :: natives where
  "example_natives =
     \<lparr>open_result = 3,
      gbm_create_device_result = Some 10,
      rgbx = \<lparr>gbm_bo_create_result = Some 11, gbm_bo_get_fd_result = 4, mmap_result = True\<rparr>,
      nv12 = \<lparr>gbm_bo_create_result = Some 12, gbm_bo_get_fd_result = 5, mmap_result = True\<rparr>,
      source = \<lparr>in_good = True, in_avail = 512\<rparr>,
      sink = \<lparr>out_good = True, out_room = 192\<rparr>,
      egl_answers = example_egl,
      eglCreateImage_rgbx = Some 20,
      eglCreateImage_nv12 = Some 21,
      CreateGlTexture_rgbx = Inr 30,
      CreateGlTexture_nv12 = Inr 31,
      CreateFramesconv_outcome = Inr 40,
      glCheckFramebufferStatus_result = GL_FRAMEBUFFER_COMPLETE,
      glGetError_result = 0,
      strerror_errno = ''No such file or directory'',
      millis = 4\<rparr>"

section \<open>Properties\<close>

subsection \<open>Helper facts\<close>

lemma then_do_simps:
  "then_do (Inl e, t) k = (Inl e, t)"
  "then_do (Inr x, t) k = (fst (k x), t @ snd (k x))"
  by (simp_all add: then_do_def split: prod.splits)

lemma then_do_if:
  "then_do (if c then Inl e else Inr x, t) k =
     (if c then (Inl e, t) else (fst (k x), t @ snd (k x)))"
  "then_do (if c then Inr x else Inl e, t) k =
     (if c then (fst (k x), t @ snd (k x)) else (Inl e, t))"
  by (simp_all add: then_do_simps)

lemma size_t_small: "n < 2 ^ 63 \<Longrightarrow> size_t n = n"
  by (simp add: size_t_def)

lemma streamsize_small:
  assumes "n < 2 ^ 63"
  shows "streamsize n = int n"
proof -
  have "int n < int (2 ^ 63)"
    using assms by (simp only: of_nat_less_iff)
  then have up: "int n < 2 ^ 63"
    by simp
  have lo: "- (2 ^ 63) \<le> int n"
    by (rule order_trans [of _ 0]) simp_all
  show ?thesis
    unfolding streamsize_def using lo up by (rule signed_take_bit_int_eq_self)
qed

subsection \<open>The colour transform\<close>

text \<open>
  C3. For every source pixel \<open>(r, g, b)\<close> both kernels compute the BT.709 full-range
  transform \<open>y = 0.2126 r + 0.7152 g + 0.0722 b\<close>, \<open>u = (b - y) / (2 (1 - 0.0722)) + 0.5\<close>,
  \<open>v = (r - y) / (2 (1 - 0.2126)) + 0.5\<close>. The compute shader loads the pixel as the texel
  \<open>vec4 r g b a\<close>; the fragment shader samples it with \<open>r\<close> and \<open>b\<close> exchanged, as the
  texel \<open>vec4 b g r a\<close>, and exchanges them back in its formulas. The arithmetic is that
  of the real numbers.
\<close>

theorem rgb2yuv_bt709:
  "(let y = 0.2126 * r + 0.7152 * g + 0.0722 * b;
        u = (b - y) / (2 * (1 - 0.0722)) + 0.5;
        v = (r - y) / (2 * (1 - 0.2126)) + 0.5
    in rgb2yuv (vec4 r g b a) = vec3 y u v \<and>
       rgb2luma (vec4 b g r a) = y \<and>
       rgb2chroma (vec4 b g r a) = (u, v))"
  unfolding rgb2yuv_def rgb2luma_def rgb2chroma_def Let_def vec4.sel
  by (simp only: mult.commute [of _ "0.2126"] mult.commute [of _ "0.7152"]
        mult.commute [of _ "0.0722"] simp_thms)

subsection \<open>The order of the luma store\<close>

text \<open>
  C8. Each luma store of the fragment shader writes its four logical samples in reversed
  channel order. With the channels numbered as the storage format ARGB8888 names them
  (0 is A, 1 is R, 2 is G, 3 is B), output channel \<open>i\<close> holds logical sample \<open>3 - i\<close> for
  every \<open>i\<close> from 0 to 3, so the last channel holds the first sample. This holds for every
  image, size and position, for the shader that writes both planes (\<open>handle_luma\<close>, through
  \<open>.bgra\<close>) and for the earlier one that writes the luma plane only.
\<close>

theorem luma_store_reversed:
  "map (channel_argb (handle_luma img_input img_input_size dst_upper_left)) [0, 1, 2, 3] =
     map (\<lambda>i. luma_samples img_input img_input_size dst_upper_left ! (3 - i)) [0, 1, 2, 3] \<and>
   map (channel_argb (fragment_main_luma_only img_input img_input_size dst_upper_left))
       [0, 1, 2, 3] =
     map (\<lambda>i. luma_only_samples img_input img_input_size dst_upper_left ! (3 - i))
       [0, 1, 2, 3]"
  by (simp add: channel_argb_def handle_luma_def fragment_main_luma_only_def swizzle_bgra_def
        Let_def)

subsection \<open>Filling and draining a buffer\<close>

lemma FillFrom_paths:
  assumes "width' b * height' b * 4 < 2 ^ 63"
  shows "FillFrom n b s =
     (let size = width' b * height' b * 4 in
      if \<not> mmap_result n then
        (Inl (system_error ''Failed to mmap gbm buffer object fd''),
         [sys (mmap size PROT_WRITE (fd' b))])
      else if in_good s \<and> size \<le> in_avail s then
        (Inr (),
         [sys (mmap size PROT_WRITE (fd' b)), sys (istream_read (int size) size),
          sys (munmap size)])
      else
        (Inl (runtime_error ''Failed to read source''),
         [sys (mmap size PROT_WRITE (fd' b)),
          sys (istream_read (int size) (if in_good s then in_avail s else 0)),
          sys (munmap size)]))"
proof -
  define sz where "sz = width' b * height' b * 4"
  have lt: "sz < 2 ^ 63"
    using assms by (simp add: sz_def)
  have 1: "size_t sz = sz" and 2: "streamsize sz = int sz"
    using lt by (simp_all add: size_t_small streamsize_small)
  show ?thesis
    unfolding FillFrom_def Let_def sz_def [symmetric] 1 2
    by (auto simp add: then_do_def Defer_def halts_def istream_ok_def istream_extracted_def)
qed

lemma DrainTo_paths:
  assumes "width' b * height' b * 4 < 2 ^ 63"
  shows "DrainTo n b s =
     (let size = width' b * height' b * 4 in
      if \<not> mmap_result n then
        (Inl (system_error ''Failed to mmap gbm buffer object fd''),
         [sys (mmap size PROT_READ (fd' b))])
      else if out_good s \<and> size \<le> out_room s then
        (Inr (),
         [sys (mmap size PROT_READ (fd' b)), sys (ostream_write (int size) size),
          sys (munmap size)])
      else
        (Inl (runtime_error ''Failed to write target''),
         [sys (mmap size PROT_READ (fd' b)),
          sys (ostream_write (int size) (if out_good s then out_room s else 0)),
          sys (munmap size)]))"
proof -
  define sz where "sz = width' b * height' b * 4"
  have lt: "sz < 2 ^ 63"
    using assms by (simp add: sz_def)
  have 1: "size_t sz = sz" and 2: "streamsize sz = int sz"
    using lt by (simp_all add: size_t_small streamsize_small)
  show ?thesis
    unfolding DrainTo_def Let_def sz_def [symmetric] 1 2
    by (auto simp add: then_do_def Defer_def halts_def ostream_ok_def ostream_taken_def)
qed

text \<open>
  C6. \<open>FillFrom\<close> and \<open>DrainTo\<close> map \<open>width * height * 4\<close> bytes of the buffer. When the
  mapping succeeds there are three paths, and each ends with the \<open>munmap\<close> of that
  mapping: the stream delivers (takes) all the bytes, exactly that many are copied and
  the function returns; or the stream is short and the function throws \<open>Failed to read
  source\<close> (\<open>Failed to write target\<close>). When \<open>mmap\<close> fails there is nothing to unmap and
  the function throws. (The size is assumed to fit \<open>std::streamsize\<close>.)
\<close>

theorem FillFrom_DrainTo_scoped_mapping:
  assumes "width' b * height' b * 4 < 2 ^ 63"
  shows
    "(let size = width' b * height' b * 4 in
      FillFrom n b src =
        (if \<not> mmap_result n then
           (Inl (system_error ''Failed to mmap gbm buffer object fd''),
            [sys (mmap size PROT_WRITE (fd' b))])
         else if in_good src \<and> size \<le> in_avail src then
           (Inr (),
            [sys (mmap size PROT_WRITE (fd' b)), sys (istream_read (int size) size),
             sys (munmap size)])
         else
           (Inl (runtime_error ''Failed to read source''),
            [sys (mmap size PROT_WRITE (fd' b)),
             sys (istream_read (int size) (if in_good src then in_avail src else 0)),
             sys (munmap size)])) \<and>
      DrainTo n b dst =
        (if \<not> mmap_result n then
           (Inl (system_error ''Failed to mmap gbm buffer object fd''),
            [sys (mmap size PROT_READ (fd' b))])
         else if out_good dst \<and> size \<le> out_room dst then
           (Inr (),
            [sys (mmap size PROT_READ (fd' b)), sys (ostream_write (int size) size),
             sys (munmap size)])
         else
           (Inl (runtime_error ''Failed to write target''),
            [sys (mmap size PROT_READ (fd' b)),
             sys (ostream_write (int size) (if out_good dst then out_room dst else 0)),
             sys (munmap size)])))"
  using FillFrom_paths [OF assms, of n src] DrainTo_paths [OF assms, of n dst]
  by (simp add: Let_def)

theorem FillFrom_DrainTo_scoped_mapping_witness:
  "FillFrom \<lparr>gbm_bo_create_result = Some 1, gbm_bo_get_fd_result = 5, mmap_result = True\<rparr>
     \<lparr>width' = 8, height' = 4, bo' = Some 1, fd' = 5\<rparr> \<lparr>in_good = True, in_avail = 100\<rparr> =
     (Inl (runtime_error ''Failed to read source''),
      [sys (mmap 128 PROT_WRITE 5), sys (istream_read 128 100), sys (munmap 128)]) \<and>
   DrainTo \<lparr>gbm_bo_create_result = Some 1, gbm_bo_get_fd_result = 5, mmap_result = True\<rparr>
     \<lparr>width' = 8, height' = 4, bo' = Some 1, fd' = 5\<rparr> \<lparr>out_good = True, out_room = 128\<rparr> =
     (Inr (), [sys (mmap 128 PROT_READ 5), sys (ostream_write 128 128), sys (munmap 128)])"
  using FillFrom_DrainTo_scoped_mapping
    [of "\<lparr>width' = 8, height' = 4, bo' = Some 1, fd' = 5\<rparr>"
        "\<lparr>gbm_bo_create_result = Some 1, gbm_bo_get_fd_result = 5, mmap_result = True\<rparr>"
        "\<lparr>in_good = True, in_avail = 100\<rparr>" "\<lparr>out_good = True, out_room = 128\<rparr>"]
  by (simp add: Let_def)

subsection \<open>The constructor of the EGL context\<close>

lemma acquired_append: "acquired (t @ u) = acquired t @ acquired u"
  by (simp add: acquired_def)

lemma released_append: "released (t @ u) = released t @ released u"
  by (simp add: released_def)

lemma EglContext_init_cases:
  "(\<exists>e t. EglContext_init n d = (Inl e, t) \<and> acquired t = [] \<and> released t = []) \<or>
   (\<exists>t. EglContext_init n d = (Inr \<lparr>display' = d, context' = eglCreateContext_result n\<rparr>, t) \<and>
        eglCreateContext_result n \<noteq> None \<and>
        acquired t = [the_context (eglCreateContext_result n)] \<and> released t = [])"
  unfolding EglContext_init_def
  by (cases "eglQueryString_display n")
     (auto simp add: then_do_simps then_do_if acquired_def released_def VerifyExtension_def)

lemma EglContext_scope_cases:
  assumes "d \<noteq> None"
  shows "(\<exists>e t. EglContext_scope n d = (Inl e, t) \<and> acquired t = [] \<and>
            released t = [the_display d]) \<or>
   (\<exists>t. EglContext_scope n d = (Inr \<lparr>display' = d, context' = eglCreateContext_result n\<rparr>, t) \<and>
        eglCreateContext_result n \<noteq> None \<and>
        acquired t = [the_context (eglCreateContext_result n)] \<and> released t = [])"
  using EglContext_init_cases [of n d] assms
  by (auto simp add: EglContext_scope_def deferred_egl_terminate_def acquired_append
        released_append acquired_def [of "[_]"] released_def [of "[_]"]
        acquired_def [of "[]"] released_def [of "[]"])

lemma EglContext_ctor_cases:
  "(\<exists>e t. EglContext_ctor n = (Inl e, t) \<and> released t = rev (acquired t)) \<or>
   (\<exists>c t. EglContext_ctor n = (Inr c, t) \<and> display' c \<noteq> None \<and> context' c \<noteq> None \<and>
        acquired t = [the_display (display' c), the_context (context' c)] \<and> released t = [])"
proof (cases "eglQueryString_platform n")
  case None
  then show ?thesis
    by (simp add: EglContext_ctor_def then_do_simps acquired_def released_def)
next
  case (Some ext)
  show ?thesis
  proof (cases "string_view_find ext ''EGL_MESA_platform_surfaceless'' = None \<or>
                eglGetPlatformDisplay_result n = None")
    case True
    then show ?thesis
      using Some
      by (auto simp add: EglContext_ctor_def then_do_simps then_do_if acquired_def released_def
            VerifyExtension_def)
  next
    case False
    then obtain d where d: "eglGetPlatformDisplay_result n = Some d"
      by auto
    have eq: "EglContext_ctor n =
      (fst (EglContext_scope n (Some d)),
       [egl (eglQueryString None), egl (eglGetPlatformDisplay (Some d))] @
       snd (EglContext_scope n (Some d)))"
      using Some False d
      by (simp add: EglContext_ctor_def then_do_simps then_do_if VerifyExtension_def)
    from EglContext_scope_cases [of "Some d" n]
    show ?thesis
      unfolding eq by (auto simp add: acquired_def released_def)
  qed
qed

lemma EglContext_init_Inr:
  assumes "EglContext_init n d = (Inr c, t)"
  shows "\<exists>ext. eglQueryString_display n = Some ext \<and>
           string_view_find ext ''EGL_KHR_surfaceless_context'' \<noteq> None \<and>
           string_view_find ext ''EGL_KHR_no_config_context'' \<noteq> None \<and>
           string_view_find ext ''EGL_EXT_image_dma_buf_import'' \<noteq> None"
  using assms unfolding EglContext_init_def
  by (cases "eglQueryString_display n")
     (auto simp add: then_do_simps then_do_if VerifyExtension_def split: if_splits)

lemma EglContext_scope_Inr:
  assumes "EglContext_scope n d = (Inr c, t)"
  shows "\<exists>t'. EglContext_init n d = (Inr c, t')"
  using assms unfolding EglContext_scope_def
  by (auto split: prod.splits sum.splits)

lemma EglContext_ctor_Inr:
  assumes "EglContext_ctor n = (Inr c, t)"
  shows "\<exists>ext ext'. eglQueryString_platform n = Some ext \<and>
           string_view_find ext ''EGL_MESA_platform_surfaceless'' \<noteq> None \<and>
           eglQueryString_display n = Some ext' \<and>
           string_view_find ext' ''EGL_KHR_surfaceless_context'' \<noteq> None \<and>
           string_view_find ext' ''EGL_KHR_no_config_context'' \<noteq> None \<and>
           string_view_find ext' ''EGL_EXT_image_dma_buf_import'' \<noteq> None"
proof (cases "eglQueryString_platform n")
  case None
  then show ?thesis
    using assms by (simp add: EglContext_ctor_def then_do_simps)
next
  case (Some ext)
  have present: "string_view_find ext ''EGL_MESA_platform_surfaceless'' \<noteq> None"
    and d: "eglGetPlatformDisplay_result n \<noteq> None"
    using assms Some
    by (auto simp add: EglContext_ctor_def then_do_simps then_do_if VerifyExtension_def
          split: if_splits)
  have "fst (EglContext_scope n (eglGetPlatformDisplay_result n)) = Inr c"
    using assms Some present d
    by (simp add: EglContext_ctor_def then_do_simps then_do_if VerifyExtension_def)
  then obtain t' where "EglContext_scope n (eglGetPlatformDisplay_result n) = (Inr c, t')"
    by (cases "EglContext_scope n (eglGetPlatformDisplay_result n)") simp
  then obtain t'' where "EglContext_init n (eglGetPlatformDisplay_result n) = (Inr c, t'')"
    using EglContext_scope_Inr by blast
  from EglContext_init_Inr [OF this] Some present
  show ?thesis
    by simp
qed

text \<open>
  C7. The constructor of \<open>EglContext\<close> is atomic. When it throws, what its trace has
  released is what the trace has acquired, in reverse order (the display, once it has
  been obtained, is terminated; a context is never left behind, since creating it is
  the last step that can fail). When it returns, it has released nothing, it holds the
  display and the context it acquired, and the destructor releases the two in reverse
  order. The absence of the platform extension, or of any of the three extensions of the
  display, makes the constructor throw.
\<close>

theorem EglContext_ctor_atomic:
  "(case EglContext_ctor n of
      (Inl e, t) \<Rightarrow> released t = rev (acquired t)
    | (Inr c, t) \<Rightarrow>
        released t = [] \<and>
        acquired t = [the_display (display' c), the_context (context' c)] \<and>
        released (EglContext_dtor c) = rev (acquired t)) \<and>
   (\<forall>ext. eglQueryString_platform n = Some ext \<longrightarrow>
      string_view_find ext ''EGL_MESA_platform_surfaceless'' = None \<longrightarrow>
      (\<exists>e t. EglContext_ctor n = (Inl e, t))) \<and>
   (\<forall>ext needle. eglQueryString_display n = Some ext \<longrightarrow>
      needle \<in> set [''EGL_KHR_surfaceless_context'', ''EGL_KHR_no_config_context'',
                     ''EGL_EXT_image_dma_buf_import''] \<longrightarrow>
      string_view_find ext needle = None \<longrightarrow>
      (\<exists>e t. EglContext_ctor n = (Inl e, t)))"
proof (intro conjI allI impI)
  show "case EglContext_ctor n of
      (Inl e, t) \<Rightarrow> released t = rev (acquired t)
    | (Inr c, t) \<Rightarrow>
        released t = [] \<and>
        acquired t = [the_display (display' c), the_context (context' c)] \<and>
        released (EglContext_dtor c) = rev (acquired t)"
    using EglContext_ctor_cases [of n]
    by (auto simp add: EglContext_dtor_def released_def)
next
  fix ext
  assume "eglQueryString_platform n = Some ext"
    and "string_view_find ext ''EGL_MESA_platform_surfaceless'' = None"
  then show "\<exists>e t. EglContext_ctor n = (Inl e, t)"
    using EglContext_ctor_Inr [of n]
    by (cases "EglContext_ctor n"; cases "fst (EglContext_ctor n)") auto
next
  fix ext needle
  assume "eglQueryString_display n = Some ext"
    and "needle \<in> set [''EGL_KHR_surfaceless_context'', ''EGL_KHR_no_config_context'',
                     ''EGL_EXT_image_dma_buf_import'']"
    and "string_view_find ext needle = None"
  then show "\<exists>e t. EglContext_ctor n = (Inl e, t)"
    using EglContext_ctor_Inr [of n]
    by (cases "EglContext_ctor n"; cases "fst (EglContext_ctor n)") auto
qed

theorem EglContext_ctor_atomic_witness:
  "EglContext_ctor example_egl =
     (Inr \<lparr>display' = Some 1, context' = Some 2\<rparr>,
      [egl (eglQueryString None), egl (eglGetPlatformDisplay (Some 1)),
       egl (eglInitialize (Some 1)), egl (eglQueryString (Some 1)), egl eglBindAPI,
       egl (eglCreateContext (Some 1) (Some 2))]) \<and>
   eglQueryString_platform (example_egl\<lparr>eglQueryString_platform := Some ''EGL_EXT_platform_base''\<rparr>)
     = Some ''EGL_EXT_platform_base'' \<and>
   string_view_find ''EGL_EXT_platform_base'' ''EGL_MESA_platform_surfaceless'' = None \<and>
   (\<exists>e t. EglContext_ctor (example_egl\<lparr>eglQueryString_platform := Some ''EGL_EXT_platform_base''\<rparr>)
      = (Inl e, t)) \<and>
   eglQueryString_display (example_egl\<lparr>eglQueryString_display := Some ''EGL_KHR_surfaceless_context''\<rparr>)
     = Some ''EGL_KHR_surfaceless_context'' \<and>
   string_view_find ''EGL_KHR_surfaceless_context'' ''EGL_KHR_no_config_context'' = None \<and>
   (\<exists>e t. EglContext_ctor (example_egl\<lparr>eglQueryString_display := Some ''EGL_KHR_surfaceless_context''\<rparr>)
      = (Inl e, t)) \<and>
   EglContext_ctor (example_egl\<lparr>eglQueryString_display := Some ''EGL_KHR_surfaceless_context''\<rparr>) =
     (Inl (runtime_error ''Required extenstion EGL_KHR_no_config_context is not supported''),
      [egl (eglQueryString None), egl (eglGetPlatformDisplay (Some 1)),
       egl (eglInitialize (Some 1)), egl (eglQueryString (Some 1)),
       egl (eglTerminate (Some 1))])"
proof -
  have 1: "EglContext_ctor example_egl =
     (Inr \<lparr>display' = Some 1, context' = Some 2\<rparr>,
      [egl (eglQueryString None), egl (eglGetPlatformDisplay (Some 1)),
       egl (eglInitialize (Some 1)), egl (eglQueryString (Some 1)), egl eglBindAPI,
       egl (eglCreateContext (Some 1) (Some 2))])"
    by code_simp
  have 2: "string_view_find ''EGL_EXT_platform_base'' ''EGL_MESA_platform_surfaceless'' = None"
    by code_simp
  have 3: "string_view_find ''EGL_KHR_surfaceless_context'' ''EGL_KHR_no_config_context'' = None"
    by code_simp
  have 4: "EglContext_ctor (example_egl\<lparr>eglQueryString_display := Some ''EGL_KHR_surfaceless_context''\<rparr>) =
     (Inl (runtime_error ''Required extenstion EGL_KHR_no_config_context is not supported''),
      [egl (eglQueryString None), egl (eglGetPlatformDisplay (Some 1)),
       egl (eglInitialize (Some 1)), egl (eglQueryString (Some 1)),
       egl (eglTerminate (Some 1))])"
    by code_simp
  show ?thesis
    using 1 2 3 4
      EglContext_ctor_atomic [of "example_egl\<lparr>eglQueryString_platform := Some ''EGL_EXT_platform_base''\<rparr>"]
      EglContext_ctor_atomic [of "example_egl\<lparr>eglQueryString_display := Some ''EGL_KHR_surfaceless_context''\<rparr>"]
    by simp
qed

subsection \<open>The fence\<close>

text \<open>
  C10. \<open>Sync\<close> throws exactly when \<open>eglCreateSync\<close> returns \<open>EGL_NO_SYNC\<close>. What
  \<open>eglClientWaitSync\<close> and \<open>eglDestroySync\<close> return changes nothing: whatever the two
  return, \<open>Sync\<close> makes the same calls and ends the same way, so a wait that failed or did
  not see the fence signalled ends as a wait that succeeded.
\<close>

theorem Sync_ignores_wait_and_destroy:
  "Sync (n\<lparr>eglClientWaitSync_result := w, eglDestroySync_result := d\<rparr>) c = Sync n c \<and>
   fst (Sync n c) =
     (if eglCreateSync_result n = None then
        Inl (runtime_error (WrapEglError ''Failed to create egl fence sync''
               (eglGetError_result n)))
      else Inr ())"
  by (simp add: Sync_def Let_def)

subsection \<open>The sizes on the command line\<close>

lemma and_7_iff: "(v::int) AND 7 = 0 \<longleftrightarrow> 8 dvd v"
proof -
  have "v AND 7 = take_bit 3 v"
    by (simp add: take_bit_eq_mask mask_eq_exp_minus_1)
  then show ?thesis
    by (simp add: take_bit_eq_mod dvd_eq_mod_eq_0)
qed

lemma and_3_iff: "(v::int) AND 3 = 0 \<longleftrightarrow> 4 dvd v"
proof -
  have "v AND 3 = take_bit 2 v"
    by (simp add: take_bit_eq_mask mask_eq_exp_minus_1)
  then show ?thesis
    by (simp add: take_bit_eq_mod dvd_eq_mod_eq_0)
qed









lemma atoi_upper: "atoi s < 2 ^ 31"
  unfolding atoi_def by (rule signed_take_bit_int_less_exp)

lemma check_size_Inr:
  assumes "check_size inp m = Inr v"
  shows "\<exists>s. inp = Some s \<and> int v = atoi s \<and> 0 < atoi s \<and> atoi s AND m = 0"
  using assms
  by (cases inp) (auto simp add: check_size_def Let_def split: if_splits)

lemma check_size_7:
  assumes "check_size inp 7 = Inr v"
  shows "0 < v \<and> v < 2 ^ 31 \<and> 8 dvd v"
proof -
  obtain s where s: "int v = atoi s" "0 < atoi s" "atoi s AND 7 = 0"
    using check_size_Inr [OF assms] by auto
  have "int v < 2 ^ 31"
    using atoi_upper [of s] s(1) by simp
  then have "v < 2 ^ 31"
    by (metis of_nat_less_iff of_nat_numeral of_nat_power)
  moreover have "8 dvd int v"
    using s by (simp add: and_7_iff)
  then have "8 dvd v"
    by presburger
  moreover have "0 < v"
    using s by linarith
  ultimately show ?thesis
    by simp
qed

lemma check_size_3:
  assumes "check_size inp 3 = Inr v"
  shows "0 < v \<and> v < 2 ^ 31 \<and> 4 dvd v"
proof -
  obtain s where s: "int v = atoi s" "0 < atoi s" "atoi s AND 3 = 0"
    using check_size_Inr [OF assms] by auto
  have "int v < 2 ^ 31"
    using atoi_upper [of s] s(1) by simp
  then have "v < 2 ^ 31"
    by (metis of_nat_less_iff of_nat_numeral of_nat_power)
  moreover have "4 dvd int v"
    using s by (simp add: and_3_iff)
  then have "4 dvd v"
    by presburger
  moreover have "0 < v"
    using s by linarith
  ultimately show ?thesis
    by simp
qed

lemma parse_loop_step:
  assumes "parse_loop mw mh (a # rest) r = Inr r'"
  shows "\<exists>args' r''. length args' \<le> length rest \<and> parse_loop mw mh args' r'' = Inr r' \<and>
           (width r'' = width r \<or> check_size (next_arg rest) mw = Inr (width r'')) \<and>
           (height r'' = height r \<or> check_size (next_arg rest) mh = Inr (height r''))"
proof -
  consider (w) "a = ''-w''" | (h) "a \<noteq> ''-w''" "a = ''-h''"
    | (i) "a \<noteq> ''-w''" "a \<noteq> ''-h''" "a = ''-i''"
    | (o) "a \<noteq> ''-w''" "a \<noteq> ''-h''" "a \<noteq> ''-i''" "a = ''-o''"
    | (r) "a \<noteq> ''-w''" "a \<noteq> ''-h''" "a \<noteq> ''-i''" "a \<noteq> ''-o''" "a = ''-r''"
    | (es) "a \<noteq> ''-w''" "a \<noteq> ''-h''" "a \<noteq> ''-i''" "a \<noteq> ''-o''" "a \<noteq> ''-r''" "a = ''-es''"
    | (other) "a \<noteq> ''-w''" "a \<noteq> ''-h''" "a \<noteq> ''-i''" "a \<noteq> ''-o''" "a \<noteq> ''-r''" "a \<noteq> ''-es''"
    by blast
  then show ?thesis
  proof cases
    case w
    then obtain v where v: "check_size (next_arg rest) mw = Inr v"
      and run: "parse_loop mw mh (drop 1 rest) (r\<lparr>width := v\<rparr>) = Inr r'"
      using assms by (simp split: sum.splits)
    show ?thesis
      by (rule exI [of _ "drop 1 rest"], rule exI [of _ "r\<lparr>width := v\<rparr>"]) (use v run in simp)
  next
    case h
    then obtain v where v: "check_size (next_arg rest) mh = Inr v"
      and run: "parse_loop mw mh (drop 1 rest) (r\<lparr>height := v\<rparr>) = Inr r'"
      using assms by (simp split: sum.splits)
    show ?thesis
      by (rule exI [of _ "drop 1 rest"], rule exI [of _ "r\<lparr>height := v\<rparr>"]) (use v run in simp)
  next
    case i
    then obtain v where run: "parse_loop mw mh (drop 1 rest) (r\<lparr>input := v\<rparr>) = Inr r'"
      using assms by (simp split: sum.splits)
    show ?thesis
      by (rule exI [of _ "drop 1 rest"], rule exI [of _ "r\<lparr>input := v\<rparr>"]) (use run in simp)
  next
    case o
    then obtain v where run: "parse_loop mw mh (drop 1 rest) (r\<lparr>output' := v\<rparr>) = Inr r'"
      using assms by (simp split: sum.splits)
    show ?thesis
      by (rule exI [of _ "drop 1 rest"], rule exI [of _ "r\<lparr>output' := v\<rparr>"]) (use run in simp)
  next
    case r
    then have run: "parse_loop mw mh (drop 1 rest) (r\<lparr>render_node := next_arg rest\<rparr>) = Inr r'"
      using assms by simp
    show ?thesis
      by (rule exI [of _ "drop 1 rest"], rule exI [of _ "r\<lparr>render_node := next_arg rest\<rparr>"])
         (use run in simp)
  next
    case es
    then obtain v where run: "parse_loop mw mh (drop 1 rest) (r\<lparr>es20 := v\<rparr>) = Inr r'"
      using assms by (simp split: sum.splits)
    show ?thesis
      by (rule exI [of _ "drop 1 rest"], rule exI [of _ "r\<lparr>es20 := v\<rparr>"]) (use run in simp)
  next
    case other
    then have run: "parse_loop mw mh rest r = Inr r'"
      using assms by simp
    show ?thesis
      by (rule exI [of _ rest], rule exI [of _ r]) (use run in simp)
  qed
qed


lemma parse_loop_sizes:
  assumes "parse_loop 7 3 args r = Inr r'"
    and "size_ok 8 (width r)" and "size_ok 4 (height r)"
  shows "size_ok 8 (width r') \<and> size_ok 4 (height r')"
  using assms
proof (induction "length args" arbitrary: args r rule: less_induct)
  case less
  show ?case
  proof (cases args)
    case Nil
    then show ?thesis
      using less.prems by simp
  next
    case (Cons a rest)
    from parse_loop_step [OF less.prems(1) [unfolded Cons]]
    obtain args' r'' where len: "length args' \<le> length rest"
      and run: "parse_loop 7 3 args' r'' = Inr r'"
      and w: "width r'' = width r \<or> check_size (next_arg rest) 7 = Inr (width r'')"
      and h: "height r'' = height r \<or> check_size (next_arg rest) 3 = Inr (height r'')"
      by blast
    have "size_ok 8 (width r'')"
      using w less.prems(2) check_size_7 [of "next_arg rest" "width r''"]
      by (auto simp add: size_ok_def)
    moreover have "size_ok 4 (height r'')"
      using h less.prems(3) check_size_3 [of "next_arg rest" "height r''"]
      by (auto simp add: size_ok_def)
    moreover have "length args' < length args"
      using len Cons by simp
    ultimately show ?thesis
      using less.hyps [OF _ run] by blast
  qed
qed

lemma ParseCommandline_Inr:
  assumes "ParseCommandline argv = Inr options"
  shows "0 < width options \<and> width options < 2 ^ 31 \<and> 8 dvd width options \<and>
         0 < height options \<and> height options < 2 ^ 31 \<and> 4 dvd height options"
proof -
  have run: "parse_loop 7 3 argv
       \<lparr>width = 0, height = 0, input = None, output' = None,
        render_node = Some ''/dev/dri/renderD128'', es20 = False\<rparr> = Inr options"
    and nz: "width options \<noteq> 0" "height options \<noteq> 0"
    using assms by (auto simp add: ParseCommandline_def split: sum.splits if_splits)
  from parse_loop_sizes [OF run] nz show ?thesis
    by (simp add: size_ok_def)
qed




subsection \<open>The dispatch of the compute shader\<close>

lemma set_src_texels:
  "set (src_texels gid) = {4 * fst gid..<4 * fst gid + 4} \<times> {2 * snd gid..<2 * snd gid + 2}"
proof -
  have x: "{4 * fst gid..<4 * fst gid + 4} =
           {fst gid * 4, fst gid * 4 + 1, fst gid * 4 + 2, fst gid * 4 + 3}"
    by auto
  have y: "{2 * snd gid..<2 * snd gid + 2} = {snd gid * 2, snd gid * 2 + 1}"
    by auto
  show ?thesis
    unfolding x y by (auto simp add: src_texels_def src_upper_left_def src_offset_def)
qed

lemma set_invocations: "set (invocations gx gy) = {0..<gx * 2} \<times> {0..<gy * 2}"
  by (auto simp add: invocations_def local_size_def)

lemma footprints_cover:
  "set (concat (map src_texels (invocations gx gy))) = {0..<8 * gx} \<times> {0..<4 * gy}"
proof (rule set_eqI)
  fix p :: "nat \<times> nat"
  obtain x y where p: "p = (x, y)"
    by (cases p)
  have "p \<in> set (concat (map src_texels (invocations gx gy))) \<longleftrightarrow>
        (\<exists>gid \<in> {0..<gx * 2} \<times> {0..<gy * 2}.
           p \<in> {4 * fst gid..<4 * fst gid + 4} \<times> {2 * snd gid..<2 * snd gid + 2})"
    by (simp add: set_src_texels set_invocations)
  also have "\<dots> \<longleftrightarrow>
        (\<exists>a b. a < gx * 2 \<and> b < gy * 2 \<and> 4 * a \<le> x \<and> x < 4 * a + 4 \<and> 2 * b \<le> y \<and> y < 2 * b + 2)"
    unfolding p by (simp add: Bex_def)
  also have "\<dots> \<longleftrightarrow> x < 8 * gx \<and> y < 4 * gy"
  proof
    assume "\<exists>a b. a < gx * 2 \<and> b < gy * 2 \<and> 4 * a \<le> x \<and> x < 4 * a + 4 \<and> 2 * b \<le> y \<and> y < 2 * b + 2"
    then show "x < 8 * gx \<and> y < 4 * gy"
      by auto
  next
    assume "x < 8 * gx \<and> y < 4 * gy"
    then have "x div 4 < gx * 2 \<and> y div 2 < gy * 2 \<and> 4 * (x div 4) \<le> x \<and> x < 4 * (x div 4) + 4 \<and>
               2 * (y div 2) \<le> y \<and> y < 2 * (y div 2) + 2"
      by presburger
    then show "\<exists>a b. a < gx * 2 \<and> b < gy * 2 \<and> 4 * a \<le> x \<and> x < 4 * a + 4 \<and> 2 * b \<le> y \<and> y < 2 * b + 2"
      by blast
  qed
  finally show "p \<in> set (concat (map src_texels (invocations gx gy))) \<longleftrightarrow>
                p \<in> {0..<8 * gx} \<times> {0..<4 * gy}"
    by (simp add: p)
qed

text \<open>
  C5. For sizes that \<open>ParseCommandline\<close> has accepted, \<open>FramesconvES31::Convert\<close>
  dispatches \<open>width / 8\<close> by \<open>height / 4\<close> by 1 work groups. An invocation loads the 4 by 2
  texels whose upper left corner is \<open>(4 x, 2 y)\<close>, and the invocations of the dispatch (2
  by 2 in each group) together load every texel of the source image and no other.
\<close>

theorem compute_dispatch_grid:
  assumes "ParseCommandline argv = Inr options"
  shows "snd (FramesconvES31_Convert err f texture_rgbx (width options) (height options)
                texture_nv12) =
           [gl (glUseProgram (program' f)), gl (glBindImageTexture 0 texture_rgbx),
            gl (glBindImageTexture 1 texture_nv12),
            gl (glDispatchCompute (width options div 8) (height options div 4) 1),
            gl glMemoryBarrier] \<and>
         set (src_texels gid) =
           {4 * fst gid..<4 * fst gid + 4} \<times> {2 * snd gid..<2 * snd gid + 2} \<and>
         set (concat (map src_texels
                (invocations (width options div 8) (height options div 4)))) =
           {0..<width options} \<times> {0..<height options}"
proof -
  have sizes: "width options < 2 ^ 31" "8 dvd width options"
    "height options < 2 ^ 31" "4 dvd height options"
    using ParseCommandline_Inr [OF assms] by simp_all
  have "width options div 8 < 2 ^ 32" "height options div 4 < 2 ^ 32"
    using sizes(1,3) by simp_all
  then have cast: "uint32_t (width options div 8) = width options div 8"
    "uint32_t (height options div 4) = height options div 4"
    by (simp_all add: uint32_t_def)
  have exact: "8 * (width options div 8) = width options"
    "4 * (height options div 4) = height options"
    using sizes(2,4) by simp_all
  show ?thesis
    using footprints_cover [of "width options div 8" "height options div 4"]
    by (simp add: FramesconvES31_Convert_def cast exact set_src_texels)
qed

theorem compute_dispatch_grid_witness:
  "ParseCommandline [''framesconv'', ''-w'', ''16'', ''-h'', ''8''] =
     Inr \<lparr>width = 16, height = 8, input = None, output' = None,
          render_node = Some ''/dev/dri/renderD128'', es20 = False\<rparr> \<and>
   snd (FramesconvES31_Convert 0 \<lparr>is_es20 = False, program' = 40\<rparr> 30 16 8 31) =
     [gl (glUseProgram 40), gl (glBindImageTexture 0 30), gl (glBindImageTexture 1 31),
      gl (glDispatchCompute 2 2 1), gl glMemoryBarrier] \<and>
   set (src_texels (1, 1)) = {4..<8} \<times> {2..<4} \<and>
   set (concat (map src_texels (invocations 2 2))) = {0..<16} \<times> {0..<8}"
proof -
  have parse: "ParseCommandline [''framesconv'', ''-w'', ''16'', ''-h'', ''8''] =
     Inr \<lparr>width = 16, height = 8, input = None, output' = None,
          render_node = Some ''/dev/dri/renderD128'', es20 = False\<rparr>"
    by code_simp
  show ?thesis
    using parse compute_dispatch_grid [OF parse, of 0 "\<lparr>is_es20 = False, program' = 40\<rparr>" 30 31 "(1, 1)"]
    by simp
qed

subsection \<open>Rejection before any device is opened\<close>


















subsection \<open>The bytes drained by a run that succeeds\<close>

lemma drained_simps [simp]:
  "drained [] = 0"
  "drained (e # t) = bytes_written e + drained t"
  "drained (t @ u) = drained t + drained u"
  by (simp_all add: drained_def)

lemma drained_then_do:
  "drained (snd (then_do m k)) =
     drained (snd m) + (case fst m of Inl e \<Rightarrow> 0 | Inr x \<Rightarrow> drained (snd (k x)))"
  by (cases m; cases "fst m") (auto simp add: then_do_def split: prod.splits)

lemma quiet_then_do:
  assumes "drained (snd m) = 0" and "\<And>x. drained (snd (k x)) = 0"
  shows "drained (snd (then_do m k)) = 0"
  using assms by (simp add: drained_then_do split: sum.splits)

lemma quiet_Defer:
  assumes "drained (snd b) = 0" and "drained c = 0"
  shows "drained (snd (Defer c b)) = 0"
  using assms by (cases b) (simp add: Defer_def)

lemma quiet_EglContext_init: "drained (snd (EglContext_init n d)) = 0"
  unfolding EglContext_init_def
  by (intro quiet_then_do) (simp_all split: option.splits)

lemma quiet_EglContext_scope: "drained (snd (EglContext_scope n d)) = 0"
  using quiet_EglContext_init [of n d]
  by (cases "EglContext_init n d"; cases "fst (EglContext_init n d)")
     (auto simp add: EglContext_scope_def deferred_egl_terminate_def)

lemma quiet_EglContext_ctor: "drained (snd (EglContext_ctor n)) = 0"
  unfolding EglContext_ctor_def
  by (intro quiet_then_do) (simp_all add: quiet_EglContext_scope split: option.splits)

lemma quiet_GbmDevice_ctor: "drained (snd (GbmDevice_ctor a b c)) = 0"
  by (simp add: GbmDevice_ctor_def FdCloser_def)

lemma quiet_GbmDevice_dtor: "drained (GbmDevice_dtor d) = 0"
  by (simp add: GbmDevice_dtor_def FdCloser_def)

lemma quiet_GbmBuffer_ctor: "drained (snd (GbmBuffer_ctor n w h)) = 0"
  by (simp add: GbmBuffer_ctor_def FdCloser_def gbm_bo_deleter_def Let_def)

lemma quiet_GbmBuffer_dtor: "drained (GbmBuffer_dtor b) = 0"
  by (simp add: GbmBuffer_dtor_def FdCloser_def gbm_bo_deleter_def)

lemma quiet_FillFrom: "drained (snd (FillFrom n b s)) = 0"
  by (simp add: FillFrom_def Let_def then_do_simps Defer_def)

lemma quiet_fill_source: "drained (snd (fill_source n options b)) = 0"
  by (cases "input options") (simp_all add: fill_source_def then_do_simps quiet_FillFrom)

lemma quiet_EglContext_dtor: "drained (EglContext_dtor c) = 0"
  by (simp add: EglContext_dtor_def)

lemma quiet_MakeCurrent: "drained (snd (MakeCurrent n c)) = 0"
  by (simp add: MakeCurrent_def)

lemma quiet_ResetCurrent: "drained (snd (ResetCurrent n c)) = 0"
  by (simp add: ResetCurrent_def)

lemma quiet_CreateEglImage: "drained (snd (CreateEglImage r e b d)) = 0"
  by (simp add: CreateEglImage_def)

lemma quiet_CreateGlTexture: "drained (snd (CreateGlTexture r i)) = 0"
  by (simp add: CreateGlTexture_def)

lemma quiet_CreateFramesconv: "drained (snd (CreateFramesconv r i)) = 0"
  by (simp add: CreateFramesconv_def)

lemma quiet_Framesconv_dtor: "drained (Framesconv_dtor f) = 0"
  by (simp add: Framesconv_dtor_def)

lemma quiet_Convert: "drained (snd (Convert n f a w h b)) = 0"
  by (simp add: Convert_def FramesconvES20_Convert_def FramesconvES31_Convert_def)

lemma quiet_Sync: "drained (snd (Sync n c)) = 0"
  by (simp add: Sync_def Let_def)


lemma then_do_InrE:
  assumes "then_do m k = (Inr y, t)"
  obtains x t1 t2 where "m = (Inr x, t1)" and "k x = (Inr y, t2)" and "t = t1 @ t2"
  using assms
  by (cases m; cases "fst m") (auto simp add: then_do_def split: prod.splits)

lemma Defer_InrE:
  assumes "Defer c b = (Inr y, t)"
  obtains t1 where "b = (Inr y, t1)" and "t = t1 @ c"
  using assms
  by (cases b) (auto simp add: Defer_def halts_def split: if_splits)

lemma Defer_throwing_InrE:
  assumes "Defer_throwing c b = (Inr y, t)"
  obtains t1 t2 where "b = (Inr y, t1)" and "snd c = t2" and "t = t1 @ t2"
  using assms
  by (cases b; cases c; cases "fst c")
     (auto simp add: Defer_throwing_def halts_def split: if_splits)

lemma quiet_fst: "drained (snd m) = 0 \<Longrightarrow> m = (r, t) \<Longrightarrow> drained t = 0"
  by simp

lemma convert_frames_Inr:
  assumes "convert_frames n options buffer_rgbx buffer_nv12 context = (Inr u, t)"
  obtains pre td post where "drain_result n options buffer_nv12 = (Inr u, td)"
    and "t = pre @ td @ post" and "drained pre = 0" and "drained post = 0"
proof -
  from assms [unfolded convert_frames_def Let_def]
  obtain image_rgbx texture_rgbx image_nv12 texture_nv12 framesconv t1 t2 t3 t4 t5 t6 t7 td
    where s1: "CreateEglImage (eglCreateImage_rgbx n) (eglGetError_result (egl_answers n))
                 buffer_rgbx (display' context) = (Inr image_rgbx, t1)"
    and s2: "CreateGlTexture (CreateGlTexture_rgbx n) image_rgbx = (Inr texture_rgbx, t2)"
    and s3: "CreateEglImage (eglCreateImage_nv12 n) (eglGetError_result (egl_answers n))
                 buffer_nv12 (display' context) = (Inr image_nv12, t3)"
    and s4: "CreateGlTexture (CreateGlTexture_nv12 n) image_nv12 = (Inr texture_nv12, t4)"
    and s5: "CreateFramesconv (CreateFramesconv_outcome n) (es20 options) = (Inr framesconv, t5)"
    and s6: "Convert n framesconv texture_rgbx (width options) (height options) texture_nv12 =
               (Inr (), t6)"
    and s7: "Sync (egl_answers n) context = (Inr (), t7)"
    and sd: "drain_result n options buffer_nv12 = (Inr u, td)"
    and t: "t = t1 @ t2 @ t3 @ t4 @ t5 @ t6 @ t7 @ [sys (cerr_millis (millis n))] @ td @
              Framesconv_dtor framesconv @ [gl (glDeleteTextures texture_nv12)] @
              [egl (eglDestroyImage (display' context) image_nv12)] @
              [gl (glDeleteTextures texture_rgbx)] @
              [egl (eglDestroyImage (display' context) image_rgbx)]"
    by (elim then_do_InrE Defer_InrE) auto
  have q: "drained t1 = 0" "drained t2 = 0" "drained t3 = 0" "drained t4 = 0" "drained t5 = 0"
    "drained t6 = 0" "drained t7 = 0"
    using quiet_fst [OF quiet_CreateEglImage s1] quiet_fst [OF quiet_CreateGlTexture s2]
      quiet_fst [OF quiet_CreateEglImage s3] quiet_fst [OF quiet_CreateGlTexture s4]
      quiet_fst [OF quiet_CreateFramesconv s5] quiet_fst [OF quiet_Convert s6]
      quiet_fst [OF quiet_Sync s7]
    by simp_all
  show ?thesis
  proof (rule that [OF sd])
    show "t = (t1 @ t2 @ t3 @ t4 @ t5 @ t6 @ t7 @ [sys (cerr_millis (millis n))]) @ td @
              (Framesconv_dtor framesconv @ [gl (glDeleteTextures texture_nv12)] @
               [egl (eglDestroyImage (display' context) image_nv12)] @
               [gl (glDeleteTextures texture_rgbx)] @
               [egl (eglDestroyImage (display' context) image_rgbx)])"
      using t by simp
    show "drained (t1 @ t2 @ t3 @ t4 @ t5 @ t6 @ t7 @ [sys (cerr_millis (millis n))]) = 0"
      using q by simp
    show "drained (Framesconv_dtor framesconv @ [gl (glDeleteTextures texture_nv12)] @
               [egl (eglDestroyImage (display' context) image_nv12)] @
               [gl (glDeleteTextures texture_rgbx)] @
               [egl (eglDestroyImage (display' context) image_rgbx)]) = 0"
      by (simp add: quiet_Framesconv_dtor)
  qed
qed


lemma GbmBuffer_ctor_Inr:
  assumes "GbmBuffer_ctor n w h = (Inr b, t)"
  shows "width' b = w \<and> height' b = h \<and> fd' b = gbm_bo_get_fd_result n"
  using assms by (auto simp add: GbmBuffer_ctor_def Let_def split: if_splits)

lemma run_main_Inr:
  assumes "run_main n options = (Inr u, t)"
  obtains buffer_rgbx buffer_nv12 ctx pre tc post
  where "width' buffer_nv12 = width options div 4"
    and "height' buffer_nv12 = size_t (height options * 3) div 2"
    and "fd' buffer_nv12 = gbm_bo_get_fd_result (nv12 n)"
    and "convert_frames n options buffer_rgbx buffer_nv12 ctx = (Inr u, tc)"
    and "t = pre @ tc @ post" and "drained pre = 0" and "drained post = 0"
proof -
  from assms [unfolded run_main_def]
  obtain device buffer_rgbx buffer_nv12 ctx t1 t2 t3 t4 t5 t6 tc
    where s1: "GbmDevice_ctor (open_result n) (gbm_create_device_result n)
                 (render_node options) = (Inr device, t1)"
    and s2: "GbmBuffer_ctor (rgbx n) (width options) (height options) = (Inr buffer_rgbx, t2)"
    and s3: "fill_source n options buffer_rgbx = (Inr (), t3)"
    and s4: "GbmBuffer_ctor (nv12 n) (width options div 4)
               (size_t (height options * 3) div 2) = (Inr buffer_nv12, t4)"
    and s5: "EglContext_ctor (egl_answers n) = (Inr ctx, t5)"
    and s6: "MakeCurrent (egl_answers n) ctx = (Inr (), t6)"
    and sc: "convert_frames n options buffer_rgbx buffer_nv12 ctx = (Inr u, tc)"
    and t: "t = t1 @ t2 @ t3 @ t4 @ t5 @ t6 @ tc @ snd (ResetCurrent (egl_answers n) ctx) @
              EglContext_dtor ctx @ GbmBuffer_dtor buffer_nv12 @
              GbmBuffer_dtor buffer_rgbx @ GbmDevice_dtor device"
    by (elim then_do_InrE Defer_InrE Defer_throwing_InrE) auto
  have q: "drained t1 = 0" "drained t2 = 0" "drained t3 = 0" "drained t4 = 0" "drained t5 = 0"
    "drained t6 = 0"
    using quiet_fst [OF quiet_GbmDevice_ctor s1] quiet_fst [OF quiet_GbmBuffer_ctor s2]
      quiet_fst [OF quiet_fill_source s3] quiet_fst [OF quiet_GbmBuffer_ctor s4]
      quiet_fst [OF quiet_EglContext_ctor s5] quiet_fst [OF quiet_MakeCurrent s6]
    by simp_all
  show ?thesis
  proof (rule that [OF _ _ _ sc])
    show "width' buffer_nv12 = width options div 4"
      "height' buffer_nv12 = size_t (height options * 3) div 2"
      "fd' buffer_nv12 = gbm_bo_get_fd_result (nv12 n)"
      using GbmBuffer_ctor_Inr [OF s4] by simp_all
    show "t = (t1 @ t2 @ t3 @ t4 @ t5 @ t6) @ tc @
            (snd (ResetCurrent (egl_answers n) ctx) @ EglContext_dtor ctx @
             GbmBuffer_dtor buffer_nv12 @ GbmBuffer_dtor buffer_rgbx @ GbmDevice_dtor device)"
      using t by simp
    show "drained (t1 @ t2 @ t3 @ t4 @ t5 @ t6) = 0"
      using q by simp
    show "drained (snd (ResetCurrent (egl_answers n) ctx) @ EglContext_dtor ctx @
             GbmBuffer_dtor buffer_nv12 @ GbmBuffer_dtor buffer_rgbx @ GbmDevice_dtor device) = 0"
      by (simp add: quiet_ResetCurrent quiet_EglContext_dtor quiet_GbmBuffer_dtor
            quiet_GbmDevice_dtor)
  qed
qed

lemma DrainTo_Inr:
  assumes "DrainTo n b s = (Inr u, t)" and "width' b * height' b * 4 < 2 ^ 63"
  shows "t = [sys (mmap (width' b * height' b * 4) PROT_READ (fd' b)),
              sys (ostream_write (int (width' b * height' b * 4)) (width' b * height' b * 4)),
              sys (munmap (width' b * height' b * 4))]"
  using assms(1) unfolding DrainTo_paths [OF assms(2)] Let_def
  by (auto split: if_splits)

lemma drain_result_Inr:
  assumes "drain_result n options b = (Inr u, t)" and "width' b * height' b * 4 < 2 ^ 63"
  shows "drained t = width' b * height' b * 4 \<and>
         sys (mmap (width' b * height' b * 4) PROT_READ (fd' b)) \<in> set t \<and>
         sys (ostream_write (int (width' b * height' b * 4)) (width' b * height' b * 4)) \<in> set t"
proof (cases "output' options")
  case None
  then have "DrainTo (nv12 n) b (sink n) = (Inr u, t)"
    using assms(1) by (simp add: drain_result_def)
  from DrainTo_Inr [OF this assms(2)] show ?thesis
    by simp
next
  case (Some path)
  then obtain t' where "DrainTo (nv12 n) b (sink n) = (Inr u, t')"
    and t: "t = sys (ofstream_ctor path) # t'"
    using assms(1)
    by (cases "DrainTo (nv12 n) b (sink n)") (auto simp add: drain_result_def then_do_simps)
  from DrainTo_Inr [OF this(1) assms(2)] t show ?thesis
    by simp
qed

lemma nv12_size:
  fixes w h :: nat
  assumes "w < 2 ^ 31" and "8 dvd w" and "h < 2 ^ 31" and "4 dvd h"
  shows "(w div 4) * (size_t (h * 3) div 2) * 4 = w * h * 3 div 2"
    and "(w div 4) * (size_t (h * 3) div 2) * 4 < 2 ^ 63"
    and "w * h * 3 div 2 = w * h + w * h div 2"
proof -
  obtain a where a: "w = 8 * a"
    using assms(2) by (elim dvdE)
  obtain b where b: "h = 4 * b"
    using assms(4) by (elim dvdE)
  have "h * 3 < 2 ^ 64"
    using assms(3) by simp
  then have st: "size_t (h * 3) = h * 3"
    by (simp add: size_t_def)
  show 1: "(w div 4) * (size_t (h * 3) div 2) * 4 = w * h * 3 div 2"
    unfolding st by (simp add: a b)
  have "w * h \<le> 2 ^ 31 * 2 ^ 31"
    using assms(1,3) by (intro mult_mono) simp_all
  then have "w * h * 3 div 2 < 2 ^ 63"
    by simp
  then show "(w div 4) * (size_t (h * 3) div 2) * 4 < 2 ^ 63"
    using 1 by simp
  show "w * h * 3 div 2 = w * h + w * h div 2"
    by (simp add: a b)
qed

lemma catch_exception_success:
  assumes "catch_exception description body = (EXIT_SUCCESS, t)"
  shows "\<exists>x. body = (Inr x, t)"
  using assms
  by (cases body; cases "fst body") (auto simp add: catch_exception_def split: if_splits)

text \<open>
  C1. When \<open>main\<close> returns \<open>EXIT_SUCCESS\<close>, the command line gave sizes \<open>width\<close> and
  \<open>height\<close> that \<open>ParseCommandline\<close> accepted, and the run has written exactly
  \<open>width * height * 3 / 2\<close> bytes to the sink, in one \<open>write\<close> from a mapping of that many
  bytes of the destination buffer: \<open>width * height\<close> bytes of luma and half as many of
  chroma.
\<close>

theorem main_drains_nv12:
  assumes "main argv n = (EXIT_SUCCESS, t)"
  shows "\<exists>options. ParseCommandline argv = Inr options \<and>
           (let size = width options * height options * 3 div 2 in
              drained t = size \<and>
              size = width options * height options + width options * height options div 2 \<and>
              sys (mmap size PROT_READ (gbm_bo_get_fd_result (nv12 n))) \<in> set t \<and>
              sys (ostream_write (int size) size) \<in> set t)"
proof -
  from catch_exception_success [OF assms [unfolded main_def]]
  obtain u where "then_do (ParseCommandline argv, []) (\<lambda>options. run_main n options) = (Inr u, t)"
    by blast
  then obtain options where parse: "ParseCommandline argv = Inr options"
    and run: "run_main n options = (Inr u, t)"
    by (elim then_do_InrE) auto
  have sizes: "width options < 2 ^ 31" "8 dvd width options"
    "height options < 2 ^ 31" "4 dvd height options"
    using ParseCommandline_Inr [OF parse] by simp_all
  note nv12 = nv12_size [OF sizes]
  from run obtain buffer_rgbx buffer_nv12 ctx pre tc post
    where b: "width' buffer_nv12 = width options div 4"
      "height' buffer_nv12 = size_t (height options * 3) div 2"
      "fd' buffer_nv12 = gbm_bo_get_fd_result (nv12 n)"
    and cf: "convert_frames n options buffer_rgbx buffer_nv12 ctx = (Inr u, tc)"
    and t: "t = pre @ tc @ post" and q: "drained pre = 0" "drained post = 0"
    by (rule run_main_Inr)
  from cf obtain pre' td post' where dr: "drain_result n options buffer_nv12 = (Inr u, td)"
    and tc: "tc = pre' @ td @ post'" and q': "drained pre' = 0" "drained post' = 0"
    by (rule convert_frames_Inr)
  have ext: "width' buffer_nv12 * height' buffer_nv12 * 4 =
             width options * height options * 3 div 2"
    using nv12(1) b by simp
  have "width' buffer_nv12 * height' buffer_nv12 * 4 < 2 ^ 63"
    using nv12(2) b by simp
  from drain_result_Inr [OF dr this]
  have "drained td = width options * height options * 3 div 2"
    and "sys (mmap (width options * height options * 3 div 2) PROT_READ
               (gbm_bo_get_fd_result (nv12 n))) \<in> set td"
    and "sys (ostream_write (int (width options * height options * 3 div 2))
               (width options * height options * 3 div 2)) \<in> set td"
    unfolding ext b(3) by simp_all
  then show ?thesis
    using parse nv12(3) t tc q q' by (auto simp add: Let_def)
qed

theorem main_drains_nv12_witness:
  "fst (main [''framesconv'', ''-w'', ''16'', ''-h'', ''8''] example_natives) = EXIT_SUCCESS \<and>
   drained (snd (main [''framesconv'', ''-w'', ''16'', ''-h'', ''8''] example_natives)) = 192 \<and>
   sys (ostream_write 192 192) \<in>
     set (snd (main [''framesconv'', ''-w'', ''16'', ''-h'', ''8''] example_natives))"
proof -
  have success: "fst (main [''framesconv'', ''-w'', ''16'', ''-h'', ''8''] example_natives) =
    EXIT_SUCCESS"
    by code_simp
  then have run: "main [''framesconv'', ''-w'', ''16'', ''-h'', ''8''] example_natives =
    (EXIT_SUCCESS, snd (main [''framesconv'', ''-w'', ''16'', ''-h'', ''8''] example_natives))"
    by (cases "main [''framesconv'', ''-w'', ''16'', ''-h'', ''8''] example_natives") simp
  have parse: "ParseCommandline [''framesconv'', ''-w'', ''16'', ''-h'', ''8''] =
     Inr \<lparr>width = 16, height = 8, input = None, output' = None,
          render_node = Some ''/dev/dri/renderD128'', es20 = False\<rparr>"
    by code_simp
  show ?thesis
    using main_drains_nv12 [OF run] parse success
    by (auto simp add: Let_def)
qed

end
